theory Spec2Isabelle
  imports Complex_Main
begin

section \<open>JavaScript values used by the services\<close>

text \<open>
  Strings are lists of code units. Every literal of the source is ASCII; a
  \<^typ>\<open>char\<close> stands for one code unit in the range 0..255.

  A value caught by \<^verbatim>\<open>catch (error: any)\<close> is modelled as an object whose
  \<^verbatim>\<open>message\<close> property is a string or is undefined (\<open>None\<close>);
  \<^verbatim>\<open>new Error(m)\<close> is \<open>Error (Some m)\<close>.
\<close>

datatype js_error = Error (message: "string option")

text \<open>\<^verbatim>\<open>s.includes(needle)\<close>: the needle occurs in \<open>s\<close> as a contiguous block.\<close>

fun starts_with :: "string \<Rightarrow> string \<Rightarrow> bool" where
  "starts_with s [] = True"
| "starts_with [] (n # ns) = False"
| "starts_with (c # cs) (n # ns) = (c = n \<and> starts_with cs ns)"

fun str_includes :: "string \<Rightarrow> string \<Rightarrow> bool" where
  "str_includes [] needle = (needle = [])"
| "str_includes (c # cs) needle = (starts_with (c # cs) needle \<or> str_includes cs needle)"

text \<open>\<^verbatim>\<open>error.message?.includes(needle)\<close>: undefined (falsy) when there is no message.\<close>

definition message_includes :: "js_error \<Rightarrow> string \<Rightarrow> bool" where
  "message_includes e needle =
     (case message e of None \<Rightarrow> False | Some m \<Rightarrow> str_includes m needle)"

text \<open>\<^verbatim>\<open>${error.message}\<close> inside a template literal.\<close>

definition message_text :: "js_error \<Rightarrow> string" where
  "message_text e = (case message e of None \<Rightarrow> ''undefined'' | Some m \<Rightarrow> m)"

text \<open>Truthiness of a value that is a string or undefined: \<^verbatim>\<open>!x\<close>.\<close>

definition falsy :: "string option \<Rightarrow> bool" where
  "falsy x = (case x of None \<Rightarrow> True | Some s \<Rightarrow> s = [])"

text \<open>
  The result of \<^verbatim>\<open>JSON.parse\<close>. Objects are association lists in which
  the first binding of a key is the property's value.
\<close>

datatype json =
    JNull
  | JBool bool
  | JNumber real
  | JString string
  | JArray "json list"
  | JObject "(string \<times> json) list"

section \<open>types.ts: schemas and run stages\<close>

datatype schema =
    STRING
  | NUMBER
  | ARRAY schema
  | OBJECT "(string \<times> schema) list" "string list"

definition RESEARCH_PLAN_SCHEMA :: schema where
  "RESEARCH_PLAN_SCHEMA =
     OBJECT
       [(''subreddits'',
           ARRAY (OBJECT [(''name'', STRING), (''queries'', ARRAY STRING)]
                         [''name'', ''queries''])),
        (''softwareCategories'', ARRAY STRING),
        (''competitorApps'', ARRAY STRING),
        (''searchStrings'', ARRAY STRING),
        (''nicheForums'', ARRAY STRING)]
       [''subreddits'', ''softwareCategories'', ''competitorApps'', ''searchStrings'',
        ''nicheForums'']"

definition SIGNAL_REPORT_SCHEMA :: schema where
  "SIGNAL_REPORT_SCHEMA =
     OBJECT
       [(''executiveSummary'', STRING),
        (''patterns'',
           ARRAY (OBJECT
             [(''id'', STRING),
              (''title'', STRING),
              (''description'', STRING),
              (''scores'',
                 OBJECT [(''frequency'', NUMBER), (''desperation'', NUMBER),
                         (''willingnessToPay'', NUMBER), (''trend'', NUMBER)]
                        [''frequency'', ''desperation'', ''willingnessToPay'', ''trend'']),
              (''classification'', STRING),
              (''quotes'',
                 ARRAY (OBJECT [(''text'', STRING), (''source'', STRING),
                                (''date'', STRING), (''url'', STRING)]
                               [''text'', ''source'', ''date'', ''url'']))]
             [''id'', ''title'', ''description'', ''scores'', ''classification'', ''quotes''])),
        (''nextSteps'', ARRAY STRING)]
       [''executiveSummary'', ''patterns'', ''nextSteps'']"

datatype ResearchStage = IDLE | PLANNING | RESEARCHING | ANALYZING | COMPLETED | ERROR

section \<open>The generative backend and the platform\<close>

datatype GoogleGenAI = GoogleGenAI (apiKey: string)

datatype tool = GoogleSearch

record gen_config =
  responseMimeType :: "string option"
  responseSchema :: "schema option"
  tools :: "tool list option"

record request =
  model :: string
  contents :: string
  config :: gen_config

record response =
  response_text :: "string option"

record pg_error =
  pg_code :: string
  pg_message :: string

record UserProfile =
  id' :: string
  first_name :: "string option"
  last_name :: "string option"
  email :: string
  credits_used :: int
  is_pro :: bool
  created_at :: string

text \<open>
  An awaited storage call either rejects or resolves to the pair the source
  destructures: \<^verbatim>\<open>{ data, error }\<close>.
\<close>

datatype query_outcome =
    QueryRejected js_error
  | QueryResolved "UserProfile option" "pg_error option"

datatype rpc_outcome =
    RpcRejected js_error
  | RpcResolved "pg_error option"

text \<open>
  Everything the code reaches outside the repository: the process
  configuration, the \<^verbatim>\<open>generateContent\<close> network call, the JSON built-ins,
  the conversion of a value to a string inside a template literal (which may
  throw), and the two storage calls.
\<close>

record platform =
  GEMINI_API_KEY :: "string option"
  generateContent :: "GoogleGenAI \<Rightarrow> request \<Rightarrow> js_error + response"
  JSON_parse :: "string \<Rightarrow> js_error + json"
  JSON_stringify :: "json \<Rightarrow> string"
  String_of :: "json \<Rightarrow> js_error + string"
  profiles_single :: "string \<Rightarrow> query_outcome"
  rpc_increment_credits :: "string \<Rightarrow> rpc_outcome"

text \<open>
  The observable effects of a call, in order: console output (by its label),
  network calls to the backend with the client that made them, storage calls,
  and the run stage the caller publishes.
\<close>

datatype event =
    ConsoleError string
  | NetworkCall GoogleGenAI request
  | StorageQuery string
  | StorageRpc string
  | SetStage ResearchStage

fun is_network_call :: "event \<Rightarrow> bool" where
  "is_network_call (NetworkCall ai req) = True"
| "is_network_call ev = False"

definition network_calls :: "event list \<Rightarrow> event list" where
  "network_calls evs = filter is_network_call evs"

section \<open>services/geminiService.ts\<close>

definition missing_key_message :: string where
  "missing_key_message =
     ''Gemini API Key is missing or empty. Please ensure you have added 'GEMINI_API_KEY' to the Secrets panel and restarted the app.''"

definition getAI :: "platform \<Rightarrow> (js_error + GoogleGenAI) \<times> event list" where
  "getAI w =
     (case GEMINI_API_KEY w of
        None \<Rightarrow>
          (Inl (Error (Some missing_key_message)), [ConsoleError ''Gemini Auth Check Failed:''])
      | Some k \<Rightarrow>
          if falsy (Some k) \<or> k = ''MY_GEMINI_API_KEY'' \<or> k = '''' \<or> k = ''undefined''
          then (Inl (Error (Some missing_key_message)),
                [ConsoleError ''Gemini Auth Check Failed:''])
          else (Inr (GoogleGenAI k), []))"

subsection \<open>Stage 1: generateResearchPlan\<close>

definition planning_prompt :: "string \<Rightarrow> string" where
  "planning_prompt market =
     ''You are a world-class market research planner. \<newline>      Create a structured research plan for the following market: '' @
     [CHR 0x22] @ market @ [CHR 0x22] @
     ''.\<newline>      Focus on finding real, validated problems and complaints.\<newline>      The plan should include subreddits, software categories (G2/Capterra), competitor apps (App Store), search strings, and niche forums.''"

definition planning_request :: "string \<Rightarrow> request" where
  "planning_request market =
     \<lparr>model = ''gemini-3-flash-preview'',
      contents = planning_prompt market,
      config = \<lparr>responseMimeType = Some ''application/json'',
                responseSchema = Some RESEARCH_PLAN_SCHEMA,
                tools = None\<rparr>\<rparr>"

definition empty_plan_message :: string where
  "empty_plan_message =
     ''The model returned an empty response. This can happen if the prompt was blocked or the model is unavailable.''"

definition invalid_key_message :: string where
  "invalid_key_message =
     ''Invalid API Key. Please check your GEMINI_API_KEY in the Secrets panel.''"

definition rate_limit_message :: string where
  "rate_limit_message = ''Rate limit exceeded. Please wait a moment before trying again.''"

text \<open>The body of the \<^verbatim>\<open>try\<close> block: \<open>Inl\<close> is the value it throws.\<close>

definition generateResearchPlan_try :: "platform \<Rightarrow> string \<Rightarrow> (js_error + json) \<times> event list" where
  "generateResearchPlan_try w market =
     (case getAI w of
        (Inl e, evs) \<Rightarrow> (Inl e, evs)
      | (Inr ai, evs) \<Rightarrow>
          (case generateContent w ai (planning_request market) of
             Inl e \<Rightarrow> (Inl e, evs @ [NetworkCall ai (planning_request market)])
           | Inr r \<Rightarrow>
               (case response_text r of
                  None \<Rightarrow>
                    (Inl (Error (Some empty_plan_message)),
                     evs @ [NetworkCall ai (planning_request market)])
                | Some t \<Rightarrow>
                    if falsy (Some t)
                    then (Inl (Error (Some empty_plan_message)),
                          evs @ [NetworkCall ai (planning_request market)])
                    else (JSON_parse w t,
                          evs @ [NetworkCall ai (planning_request market)]))))"

text \<open>The \<^verbatim>\<open>catch\<close> block: the error it throws for the error it caught.\<close>

definition planning_catch :: "js_error \<Rightarrow> js_error" where
  "planning_catch e =
     (if message_includes e ''403'' \<or> message_includes e ''401''
      then Error (Some invalid_key_message)
      else if message_includes e ''429''
      then Error (Some rate_limit_message)
      else Error (Some (''Research Planning failed: '' @ message_text e)))"

definition generateResearchPlan :: "platform \<Rightarrow> string \<Rightarrow> (js_error + json) \<times> event list" where
  "generateResearchPlan w market =
     (case generateResearchPlan_try w market of
        (Inr plan, evs) \<Rightarrow> (Inr plan, evs)
      | (Inl e, evs) \<Rightarrow>
          (Inl (planning_catch e), evs @ [ConsoleError ''Detailed Planning Error:'']))"

subsection \<open>Stage 2: executeResearch\<close>

definition research_prompt :: "platform \<Rightarrow> string \<Rightarrow> json \<Rightarrow> string" where
  "research_prompt w market plan =
     ''Perform deep market research for '' @ [CHR 0x22] @ market @ [CHR 0x22] @
     '' based on this plan:\<newline>    '' @
     JSON_stringify w plan @
     ''\<newline>    \<newline>    Search for:\<newline>    1. Reddit threads with complaints and frustrations.\<newline>    2. Negative reviews on G2, Capterra, and App Store.\<newline>    3. Discussions in niche forums.\<newline>    \<newline>    Extract specific quotes, dates, and URLs. Look for '' @
     [CHR 0x22] @ ''desperation language'' @ [CHR 0x22] @
     '' (e.g., '' @ [CHR 0x22] @ ''nothing works'' @ [CHR 0x22] @
     '', '' @ [CHR 0x22] @ ''losing money'' @ [CHR 0x22] @
     '', '' @ [CHR 0x22] @ ''I hate that'' @ [CHR 0x22] @
     '').\<newline>    Focus on recurring patterns of frustration.\<newline>    \<newline>    Return a detailed summary of your findings, including raw text snippets and their sources.''"

definition research_request :: "platform \<Rightarrow> string \<Rightarrow> json \<Rightarrow> request" where
  "research_request w market plan =
     \<lparr>model = ''gemini-3-flash-preview'',
      contents = research_prompt w market plan,
      config = \<lparr>responseMimeType = None,
                responseSchema = None,
                tools = Some [GoogleSearch]\<rparr>\<rparr>"

definition executeResearch_try ::
  "platform \<Rightarrow> string \<Rightarrow> json \<Rightarrow> (js_error + string) \<times> event list" where
  "executeResearch_try w market plan =
     (case getAI w of
        (Inl e, evs) \<Rightarrow> (Inl e, evs)
      | (Inr ai, evs) \<Rightarrow>
          (case generateContent w ai (research_request w market plan) of
             Inl e \<Rightarrow> (Inl e, evs @ [NetworkCall ai (research_request w market plan)])
           | Inr r \<Rightarrow>
               (if falsy (response_text r) then Inr ''No research data found.''
                else (case response_text r of
                        None \<Rightarrow> Inr ''No research data found.''
                      | Some t \<Rightarrow> Inr t),
                evs @ [NetworkCall ai (research_request w market plan)])))"

definition executeResearch ::
  "platform \<Rightarrow> string \<Rightarrow> json \<Rightarrow> (js_error + string) \<times> event list" where
  "executeResearch w market plan =
     (case executeResearch_try w market plan of
        (Inr findings, evs) \<Rightarrow> (Inr findings, evs)
      | (Inl e, evs) \<Rightarrow>
          (Inl (Error (Some (''Research Execution failed: '' @ message_text e))),
           evs @ [ConsoleError ''Error in executeResearch:'']))"

subsection \<open>Stage 3: analyzeSignals\<close>

definition analysis_prompt :: "string \<Rightarrow> string \<Rightarrow> string" where
  "analysis_prompt market rawResearch =
     ''Analyze the following market research data for '' @ [CHR 0x22] @ market @ [CHR 0x22] @
     '' and extract Problem Patterns.\<newline>      \<newline>      Research Data:\<newline>      '' @
     rawResearch @
     ''\<newline>      \<newline>      For each pattern:\<newline>      - Score Frequency (1-5): How widespread is this?\<newline>      - Score Desperation (1-5): How intense is the language?\<newline>      - Score Willingness to Pay (1-5): Are they losing money or paying for workarounds?\<newline>      - Score Trend (1-5): Is this a recent and growing problem?\<newline>      \<newline>      Classify as '' @
     [CHR 0x22] @ ''Strong Signal'' @ [CHR 0x22] @
     '', '' @ [CHR 0x22] @ ''Weak Signal'' @ [CHR 0x22] @
     '', or '' @ [CHR 0x22] @ ''Noise'' @ [CHR 0x22] @
     ''.\<newline>      A complaint only qualifies as signal if there is an implied or explicit desired alternative.\<newline>      \<newline>      Provide 3-5 direct quotes per pattern with source links.\<newline>      Include an executive summary and next steps.''"

definition analysis_request :: "string \<Rightarrow> string \<Rightarrow> request" where
  "analysis_request market rawResearch =
     \<lparr>model = ''gemini-3-flash-preview'',
      contents = analysis_prompt market rawResearch,
      config = \<lparr>responseMimeType = Some ''application/json'',
                responseSchema = Some SIGNAL_REPORT_SCHEMA,
                tools = None\<rparr>\<rparr>"

definition analyzeSignals_try ::
  "platform \<Rightarrow> string \<Rightarrow> string \<Rightarrow> (js_error + json) \<times> event list" where
  "analyzeSignals_try w market rawResearch =
     (case getAI w of
        (Inl e, evs) \<Rightarrow> (Inl e, evs)
      | (Inr ai, evs) \<Rightarrow>
          (case generateContent w ai (analysis_request market rawResearch) of
             Inl e \<Rightarrow> (Inl e, evs @ [NetworkCall ai (analysis_request market rawResearch)])
           | Inr r \<Rightarrow>
               (case response_text r of
                  None \<Rightarrow>
                    (Inl (Error (Some ''No analysis received from Gemini.'')),
                     evs @ [NetworkCall ai (analysis_request market rawResearch)])
                | Some t \<Rightarrow>
                    if falsy (Some t)
                    then (Inl (Error (Some ''No analysis received from Gemini.'')),
                          evs @ [NetworkCall ai (analysis_request market rawResearch)])
                    else (JSON_parse w t,
                          evs @ [NetworkCall ai (analysis_request market rawResearch)]))))"

definition analyzeSignals ::
  "platform \<Rightarrow> string \<Rightarrow> string \<Rightarrow> (js_error + json) \<times> event list" where
  "analyzeSignals w market rawResearch =
     (case analyzeSignals_try w market rawResearch of
        (Inr report, evs) \<Rightarrow> (Inr report, evs)
      | (Inl e, evs) \<Rightarrow>
          (Inl (Error (Some (''Signal Analysis failed: '' @ message_text e))),
           evs @ [ConsoleError ''Error in analyzeSignals:'']))"

section \<open>services/supabase.ts\<close>

text \<open>
  What \<^verbatim>\<open>getProfile\<close> and \<^verbatim>\<open>incrementCredits\<close> can throw inside their
  \<^verbatim>\<open>try\<close> blocks: the rejection of the awaited call, or the error object
  of the resolved pair (\<^verbatim>\<open>throw error\<close>).
\<close>

datatype storage_thrown = ThrownRejection js_error | ThrownPg pg_error

definition getProfile_try ::
  "platform \<Rightarrow> string \<Rightarrow> (storage_thrown + UserProfile option) \<times> event list" where
  "getProfile_try w userId =
     (case profiles_single w userId of
        QueryRejected e \<Rightarrow> (Inl (ThrownRejection e), [StorageQuery userId])
      | QueryResolved data err \<Rightarrow>
          (case err of
             Some pe \<Rightarrow>
               if pg_code pe = ''PGRST116'' then (Inr None, [StorageQuery userId])
               else (Inl (ThrownPg pe),
                     [StorageQuery userId, ConsoleError ''Error fetching profile:''])
           | None \<Rightarrow> (Inr data, [StorageQuery userId])))"

text \<open>
  The result keeps the error channel of an async function, so that "does not
  throw" is a statement about the value: \<open>Inl\<close> would be a rejection.
\<close>

definition getProfile ::
  "platform \<Rightarrow> string \<Rightarrow> (storage_thrown + UserProfile option) \<times> event list" where
  "getProfile w userId =
     (case getProfile_try w userId of
        (Inr p, evs) \<Rightarrow> (Inr p, evs)
      | (Inl thrown, evs) \<Rightarrow> (Inr None, evs @ [ConsoleError ''Supabase getProfile failed:'']))"

definition incrementCredits_try ::
  "platform \<Rightarrow> string \<Rightarrow> (storage_thrown + unit) \<times> event list" where
  "incrementCredits_try w userId =
     (case rpc_increment_credits w userId of
        RpcRejected e \<Rightarrow> (Inl (ThrownRejection e), [StorageRpc userId])
      | RpcResolved err \<Rightarrow>
          (case err of
             Some pe \<Rightarrow>
               (Inl (ThrownPg pe), [StorageRpc userId, ConsoleError ''Error incrementing credits:''])
           | None \<Rightarrow> (Inr (), [StorageRpc userId])))"

definition incrementCredits ::
  "platform \<Rightarrow> string \<Rightarrow> (storage_thrown + unit) \<times> event list" where
  "incrementCredits w userId =
     (case incrementCredits_try w userId of
        (Inr u, evs) \<Rightarrow> (Inr (), evs)
      | (Inl thrown, evs) \<Rightarrow>
          (Inr (), evs @ [ConsoleError ''Supabase incrementCredits failed:'']))"

section \<open>App.tsx: startResearch\<close>

text \<open>
  The component's state as far as \<^verbatim>\<open>startResearch\<close> reads or writes it.
  The function works on the values of the render that created it, so
  \<^verbatim>\<open>market\<close>, \<^verbatim>\<open>session\<close> and \<^verbatim>\<open>profile\<close> are read from the state it is
  given. The form event and its \<^verbatim>\<open>preventDefault\<close> are left out.
\<close>

datatype Session = Session (user_id: string)

record app_state =
  market :: string
  stage :: ResearchStage
  plan :: "json option"
  report :: "json option"
  error :: "string option"
  progressText :: string
  session :: "Session option"
  profile :: "UserProfile option"
  showAuthModal :: bool

text \<open>
  \<^verbatim>\<open>market.trim()\<close>: white space and line terminators are removed at both
  ends. Of the code units the model has, these are 9 to 13, 32 and 160.
\<close>

definition js_whitespace :: "char \<Rightarrow> bool" where
  "js_whitespace c =
     (c = CHR 0x09 \<or> c = CHR 0x0A \<or> c = CHR 0x0B \<or> c = CHR 0x0C \<or> c = CHR 0x0D \<or>
      c = CHR 0x20 \<or> c = CHR 0xA0)"

definition js_trim :: "string \<Rightarrow> string" where
  "js_trim s = rev (dropWhile js_whitespace (rev (dropWhile js_whitespace s)))"

text \<open>
  Line 152 reads \<^verbatim>\<open>researchPlan.subreddits.length\<close> and
  \<^verbatim>\<open>researchPlan.softwareCategories.length\<close> on the parsed value, whatever
  its shape. A read yields undefined, a length, or a value of the parsed
  structure; a read on null or undefined throws a TypeError (the message is
  the one V8 prints).
\<close>

datatype js_value = Undefined | Number nat | Value json

definition cannot_read :: "string \<Rightarrow> string \<Rightarrow> js_error" where
  "cannot_read what name =
     Error (Some (''Cannot read properties of '' @ what @ '' (reading '' @ [CHR 0x27] @ name @
                  [CHR 0x27] @ '')''))"

text \<open>A read of a property that no prototype defines.\<close>

fun read_field :: "json \<Rightarrow> string \<Rightarrow> js_error + js_value" where
  "read_field JNull name = Inl (cannot_read ''null'' name)"
| "read_field (JObject kvs) name =
     Inr (case map_of kvs name of None \<Rightarrow> Undefined | Some v \<Rightarrow> Value v)"
| "read_field v name = Inr Undefined"

fun read_length :: "js_value \<Rightarrow> js_error + js_value" where
  "read_length Undefined = Inl (cannot_read ''undefined'' ''length'')"
| "read_length (Number n) = Inr Undefined"
| "read_length (Value JNull) = Inl (cannot_read ''null'' ''length'')"
| "read_length (Value (JArray xs)) = Inr (Number (length xs))"
| "read_length (Value (JString s)) = Inr (Number (length s))"
| "read_length (Value (JObject kvs)) =
     Inr (case map_of kvs ''length'' of None \<Rightarrow> Undefined | Some v \<Rightarrow> Value v)"
| "read_length (Value v) = Inr Undefined"

fun digit :: "nat \<Rightarrow> char" where
  "digit n = char_of (48 + n)"

fun decimal :: "nat \<Rightarrow> string" where
  "decimal n = (if n < 10 then [digit n] else decimal (n div 10) @ [digit (n mod 10)])"

text \<open>A value inside \<^verbatim>\<open>${...}\<close>.\<close>

definition interpolate :: "platform \<Rightarrow> js_value \<Rightarrow> js_error + string" where
  "interpolate w x =
     (case x of
        Undefined \<Rightarrow> Inr ''undefined''
      | Number n \<Rightarrow> Inr (decimal n)
      | Value v \<Rightarrow> String_of w v)"

definition length_text :: "platform \<Rightarrow> json \<Rightarrow> string \<Rightarrow> js_error + string" where
  "length_text w researchPlan name =
     (case read_field researchPlan name of
        Inl e \<Rightarrow> Inl e
      | Inr x \<Rightarrow> (case read_length x of Inl e \<Rightarrow> Inl e | Inr n \<Rightarrow> interpolate w n))"

definition scanning_text :: "platform \<Rightarrow> json \<Rightarrow> js_error + string" where
  "scanning_text w researchPlan =
     (case length_text w researchPlan ''subreddits'' of
        Inl e \<Rightarrow> Inl e
      | Inr a \<Rightarrow>
          (case length_text w researchPlan ''softwareCategories'' of
             Inl e \<Rightarrow> Inl e
           | Inr b \<Rightarrow>
               Inr (''Scanning '' @ a @ '' subreddits and '' @ b @ '' software categories...'')))"

text \<open>
  The \<^verbatim>\<open>try\<close> block of \<^verbatim>\<open>startResearch\<close>, from its end to its start.
  Each part returns the value thrown (if any), the state and the effects.
  \<^verbatim>\<open>fetchProfile\<close> is not awaited; the state returned is the one after it
  has settled.
\<close>

definition finish_run ::
  "platform \<Rightarrow> Session \<Rightarrow> app_state \<Rightarrow> json \<Rightarrow> js_error option \<times> app_state \<times> event list" where
  "finish_run w sess s finalReport =
     (let credited = incrementCredits w (user_id sess);
          fetched = getProfile w (user_id sess)
      in (None,
          s\<lparr>report := Some finalReport, stage := COMPLETED,
            profile := (case fst fetched of Inl thrown \<Rightarrow> profile s | Inr p \<Rightarrow> p)\<rparr>,
          [SetStage COMPLETED] @ snd credited @ snd fetched))"

definition analyze_step ::
  "platform \<Rightarrow> Session \<Rightarrow> app_state \<Rightarrow> string \<Rightarrow> js_error option \<times> app_state \<times> event list" where
  "analyze_step w sess s rawData =
     (let s' = s\<lparr>stage := ANALYZING,
                  progressText := ''Analyzing signals and extracting problem patterns...''\<rparr>
      in case analyzeSignals w (market s) rawData of
           (Inl e, evs) \<Rightarrow> (Some e, s', [SetStage ANALYZING] @ evs)
         | (Inr finalReport, evs) \<Rightarrow>
             (case finish_run w sess s' finalReport of
                (thrown, s'', evs') \<Rightarrow> (thrown, s'', [SetStage ANALYZING] @ evs @ evs')))"

definition research_step ::
  "platform \<Rightarrow> Session \<Rightarrow> app_state \<Rightarrow> json \<Rightarrow> js_error option \<times> app_state \<times> event list" where
  "research_step w sess s researchPlan =
     (let s' = s\<lparr>plan := Some researchPlan, stage := RESEARCHING\<rparr>
      in case scanning_text w researchPlan of
           Inl e \<Rightarrow> (Some e, s', [SetStage RESEARCHING])
         | Inr shown \<Rightarrow>
             (case executeResearch w (market s) researchPlan of
                (Inl e, evs) \<Rightarrow> (Some e, s'\<lparr>progressText := shown\<rparr>, [SetStage RESEARCHING] @ evs)
              | (Inr rawData, evs) \<Rightarrow>
                  (case analyze_step w sess (s'\<lparr>progressText := shown\<rparr>) rawData of
                     (thrown, s'', evs') \<Rightarrow> (thrown, s'', [SetStage RESEARCHING] @ evs @ evs'))))"

definition startResearch_try ::
  "platform \<Rightarrow> Session \<Rightarrow> app_state \<Rightarrow> js_error option \<times> app_state \<times> event list" where
  "startResearch_try w sess s =
     (case generateResearchPlan w (market s) of
        (Inl e, evs) \<Rightarrow> (Some e, s, evs)
      | (Inr researchPlan, evs) \<Rightarrow>
          (case research_step w sess s researchPlan of
             (thrown, s', evs') \<Rightarrow> (thrown, s', evs @ evs')))"

text \<open>\<^verbatim>\<open>err.message || 'An unexpected error occurred during research.'\<close>\<close>

definition shown_error :: "js_error \<Rightarrow> string" where
  "shown_error err =
     (if falsy (message err) then ''An unexpected error occurred during research.''
      else (case message err of
              None \<Rightarrow> ''An unexpected error occurred during research.''
            | Some m \<Rightarrow> m))"

definition free_limit_message :: string where
  "free_limit_message = ''Free credit limit reached. Please upgrade to Pro.''"

definition startResearch :: "platform \<Rightarrow> app_state \<Rightarrow> app_state \<times> event list" where
  "startResearch w s =
     (if falsy (Some (js_trim (market s))) then (s, [])
      else
        (case session s of
           None \<Rightarrow> (s\<lparr>showAuthModal := True\<rparr>, [])
         | Some sess \<Rightarrow>
             if (case profile s of
                   None \<Rightarrow> False
                 | Some p \<Rightarrow> \<not> is_pro p \<and> credits_used p \<ge> 3)
             then (s\<lparr>error := Some free_limit_message\<rparr>, [])
             else
               (case startResearch_try w sess
                       (s\<lparr>stage := PLANNING, error := None, plan := None, report := None,
                          progressText := ''Planning your research strategy...''\<rparr>) of
                  (None, s', evs) \<Rightarrow> (s', [SetStage PLANNING] @ evs)
                | (Some err, s', evs) \<Rightarrow>
                    (s'\<lparr>error := Some (shown_error err), stage := ERROR\<rparr>,
                     [SetStage PLANNING] @ evs @
                     [ConsoleError ''Research Error Details:'', SetStage ERROR]))))"

section \<open>Notions the properties are stated with\<close>

text \<open>
  Conformance of a parsed value to a schema, as the schema's words say: a
  string for \<open>STRING\<close>, a number for \<open>NUMBER\<close>, an array of conforming items
  for \<open>ARRAY\<close>, and for \<open>OBJECT\<close> an object that has every required property
  and whose declared properties, where present, conform. The code never
  checks it; it is the premise "matching ResearchPlanSchema".
\<close>

fun matches :: "schema \<Rightarrow> json \<Rightarrow> bool" where
  "matches STRING v = (case v of JString s \<Rightarrow> True | _ \<Rightarrow> False)"
| "matches NUMBER v = (case v of JNumber n \<Rightarrow> True | _ \<Rightarrow> False)"
| "matches (ARRAY items) v =
     (case v of JArray xs \<Rightarrow> list_all (matches items) xs | _ \<Rightarrow> False)"
| "matches (OBJECT props required) v =
     (case v of
        JObject kvs \<Rightarrow>
          list_all (\<lambda>k. map_of kvs k \<noteq> None) required \<and>
          list_all (\<lambda>(k, sch). case map_of kvs k of None \<Rightarrow> True | Some x \<Rightarrow> matches sch x) props
      | _ \<Rightarrow> False)"

text \<open>The value of a property of a parsed object.\<close>

definition field :: "json \<Rightarrow> string \<Rightarrow> json option" where
  "field v name = (case v of JObject kvs \<Rightarrow> map_of kvs name | _ \<Rightarrow> None)"

text \<open>
  The three error-text markers the planning stage looks for, and the context
  each stage puts in front of the message it wraps.
\<close>

definition has_marker :: "js_error \<Rightarrow> bool" where
  "has_marker e =
     (message_includes e ''401'' \<or> message_includes e ''403'' \<or> message_includes e ''429'')"

definition planning_context :: string where
  "planning_context = ''Research Planning failed: ''"

definition execution_context :: string where
  "execution_context = ''Research Execution failed: ''"

definition analysis_context :: string where
  "analysis_context = ''Signal Analysis failed: ''"

section \<open>Concrete platforms and states\<close>

text \<open>
  The plan of the end-to-end scenario (market "gym owners"), its JSON text,
  and a parser that knows this one text and rejects every other text with the
  message V8 gives, which quotes the text.
\<close>

definition gym_plan :: json where
  "gym_plan =
     JObject
       [(''subreddits'',
           JArray [JObject [(''name'', JString ''r/gymowners''),
                            (''queries'', JArray [JString ''software frustrations''])]]),
        (''softwareCategories'', JArray []),
        (''competitorApps'', JArray []),
        (''searchStrings'', JArray []),
        (''nicheForums'', JArray [])]"

definition quoted :: "string \<Rightarrow> string" where
  "quoted s = [CHR 0x22] @ s @ [CHR 0x22]"

definition gym_plan_text :: string where
  "gym_plan_text =
     ''{'' @ quoted ''subreddits'' @ '':[{'' @ quoted ''name'' @ '':'' @ quoted ''r/gymowners'' @
     '','' @ quoted ''queries'' @ '':['' @ quoted ''software frustrations'' @ '']}],'' @
     quoted ''softwareCategories'' @ '':[],'' @ quoted ''competitorApps'' @ '':[],'' @
     quoted ''searchStrings'' @ '':[],'' @ quoted ''nicheForums'' @ '':[]}''"

definition not_valid_json :: "string \<Rightarrow> js_error" where
  "not_valid_json t =
     Error (Some (''Unexpected token '' @ [CHR 0x27] @ take 1 t @ [CHR 0x27] @ '', '' @
                  quoted t @ '' is not valid JSON''))"

definition gym_parse :: "string \<Rightarrow> js_error + json" where
  "gym_parse t = (if t = gym_plan_text then Inr gym_plan else Inl (not_valid_json t))"

definition gym_profile :: UserProfile where
  "gym_profile =
     \<lparr>id' = ''u1'', first_name = Some ''Ada'', last_name = None, email = ''ada@example.org'',
      credits_used = 5, is_pro = False, created_at = ''2026-01-01''\<rparr>"

text \<open>A platform with the given credential and backend.\<close>

definition platform_with ::
  "string option \<Rightarrow> (GoogleGenAI \<Rightarrow> request \<Rightarrow> js_error + response) \<Rightarrow> platform" where
  "platform_with key backend =
     \<lparr>GEMINI_API_KEY = key,
      generateContent = backend,
      JSON_parse = gym_parse,
      JSON_stringify = (\<lambda>v. gym_plan_text),
      String_of = (\<lambda>v. Inr ''[object Object]''),
      profiles_single = (\<lambda>userId. QueryResolved (Some gym_profile) None),
      rpc_increment_credits = (\<lambda>userId. RpcResolved None)\<rparr>"

definition answering :: "string option \<Rightarrow> GoogleGenAI \<Rightarrow> request \<Rightarrow> js_error + response" where
  "answering t ai req = Inr \<lparr>response_text = t\<rparr>"

definition rejecting :: "string \<Rightarrow> GoogleGenAI \<Rightarrow> request \<Rightarrow> js_error + response" where
  "rejecting m ai req = Inl (Error (Some m))"

definition placeholder_platform :: platform where
  "placeholder_platform = platform_with (Some ''MY_GEMINI_API_KEY'') (answering (Some gym_plan_text))"

definition silent_platform :: platform where
  "silent_platform = platform_with (Some ''k-123'') (answering None)"

definition blank_platform :: platform where
  "blank_platform = platform_with (Some ''k-123'') (answering (Some []))"

definition gym_platform :: platform where
  "gym_platform = platform_with (Some ''k-123'') (answering (Some gym_plan_text))"

definition html_platform :: platform where
  "html_platform = platform_with (Some ''k-123'') (answering (Some ''<html>''))"

definition forbidden_text_platform :: platform where
  "forbidden_text_platform =
     platform_with (Some ''k-123'') (answering (Some ''Error 403: Forbidden''))"

definition forbidden_platform :: platform where
  "forbidden_platform = platform_with (Some ''k-123'') (rejecting ''got status: 403 Forbidden'')"

definition offline_platform :: platform where
  "offline_platform = platform_with (Some ''k-123'') (rejecting ''fetch failed'')"

text \<open>
  A backend that answers by the kind of request: the planning request carries
  the plan schema, the research request the search tool, the analysis request
  the report schema.
\<close>

definition staged ::
  "(js_error + response) \<Rightarrow> (js_error + response) \<Rightarrow> (js_error + response) \<Rightarrow>
   GoogleGenAI \<Rightarrow> request \<Rightarrow> js_error + response" where
  "staged planning research analysis ai req =
     (if tools (config req) = Some [GoogleSearch] then research
      else if responseSchema (config req) = Some RESEARCH_PLAN_SCHEMA then planning
      else analysis)"

definition research_down_platform :: platform where
  "research_down_platform =
     platform_with (Some ''k-123'')
       (staged (Inr \<lparr>response_text = Some gym_plan_text\<rparr>)
               (Inl (Error (Some ''fetch failed'')))
               (Inl (Error (Some ''fetch failed''))))"

definition analysis_down_platform :: platform where
  "analysis_down_platform =
     platform_with (Some ''k-123'')
       (staged (Inr \<lparr>response_text = Some gym_plan_text\<rparr>)
               (Inr \<lparr>response_text =
                      Some ''Owners repeatedly complain about scheduling software losing bookings.''\<rparr>)
               (Inl (Error (Some ''fetch failed''))))"

definition unreachable_storage_platform :: platform where
  "unreachable_storage_platform =
     gym_platform\<lparr>profiles_single := (\<lambda>userId. QueryRejected (Error (Some ''Failed to fetch'')))\<rparr>"

definition denied_storage_platform :: platform where
  "denied_storage_platform =
     gym_platform\<lparr>profiles_single :=
       (\<lambda>userId. QueryResolved None
                    (Some \<lparr>pg_code = ''42501'', pg_message = ''permission denied''\<rparr>))\<rparr>"

definition idle_state :: app_state where
  "idle_state =
     \<lparr>market = ''gym owners'', stage = IDLE, plan = None, report = None, error = None,
      progressText = [], session = Some (Session ''u1''), profile = None,
      showAuthModal = False\<rparr>"

definition exhausted_state :: app_state where
  "exhausted_state = idle_state\<lparr>profile := Some gym_profile\<rparr>"

section \<open>Substring search\<close>

lemma starts_with_iff: "starts_with s n \<longleftrightarrow> (\<exists>post. s = n @ post)"
  by (induction s n rule: starts_with.induct) auto

lemma str_includes_iff: "str_includes s n \<longleftrightarrow> (\<exists>pre post. s = pre @ n @ post)"
proof (induction s)
  case Nil
  then show ?case by auto
next
  case (Cons c cs)
  show ?case
  proof
    assume "str_includes (c # cs) n"
    then consider "starts_with (c # cs) n" | "str_includes cs n" by auto
    then show "\<exists>pre post. c # cs = pre @ n @ post"
    proof cases
      case 1
      then obtain post where "c # cs = n @ post" by (auto simp: starts_with_iff)
      then have "c # cs = [] @ n @ post" by simp
      then show ?thesis by blast
    next
      case 2
      then obtain pre post where "cs = pre @ n @ post" using Cons.IH by auto
      then have "c # cs = (c # pre) @ n @ post" by simp
      then show ?thesis by blast
    qed
  next
    assume "\<exists>pre post. c # cs = pre @ n @ post"
    then obtain pre post where eq: "c # cs = pre @ n @ post" by blast
    show "str_includes (c # cs) n"
    proof (cases pre)
      case Nil
      with eq have "starts_with (c # cs) n" by (auto simp: starts_with_iff)
      then show ?thesis by simp
    next
      case (Cons p ps)
      with eq have "cs = ps @ n @ post" by simp
      then have "str_includes cs n" using Cons.IH by blast
      then show ?thesis by simp
    qed
  qed
qed

section \<open>The credential check\<close>

lemma getAI_unusable:
  assumes "GEMINI_API_KEY w = None \<or> GEMINI_API_KEY w = Some '''' \<or>
           GEMINI_API_KEY w = Some ''MY_GEMINI_API_KEY'' \<or> GEMINI_API_KEY w = Some ''undefined''"
  shows "getAI w = (Inl (Error (Some missing_key_message)), [ConsoleError ''Gemini Auth Check Failed:''])"
  using assms by (auto simp: getAI_def)

lemma getAI_usable:
  assumes "GEMINI_API_KEY w = Some k" "k \<noteq> []" "k \<noteq> ''MY_GEMINI_API_KEY''" "k \<noteq> ''undefined''"
  shows "getAI w = (Inr (GoogleGenAI k), [])"
  using assms by (simp add: getAI_def falsy_def)

lemma missing_key_no_marker: "\<not> has_marker (Error (Some missing_key_message))"
  by (simp add: has_marker_def message_includes_def missing_key_message_def)

lemma empty_plan_no_marker: "\<not> has_marker (Error (Some empty_plan_message))"
  by (simp add: has_marker_def message_includes_def empty_plan_message_def)

lemma planning_catch_plain:
  "\<not> has_marker e \<Longrightarrow> planning_catch e = Error (Some (planning_context @ message_text e))"
  by (simp add: planning_catch_def has_marker_def planning_context_def)

lemma message_text_Some [simp]: "message_text (Error (Some m)) = m"
  by (simp add: message_text_def)

section \<open>Stage results in each branch\<close>

lemma plan_rejected:
  assumes "getAI w = (Inr ai, [])" "generateContent w ai (planning_request m) = Inl e"
  shows "generateResearchPlan_try w m = (Inl e, [NetworkCall ai (planning_request m)])"
  using assms by (simp add: generateResearchPlan_try_def)

lemma plan_empty:
  assumes "getAI w = (Inr ai, [])" "generateContent w ai (planning_request m) = Inr r"
          "response_text r = None \<or> response_text r = Some []"
  shows "generateResearchPlan_try w m =
           (Inl (Error (Some empty_plan_message)), [NetworkCall ai (planning_request m)])"
  using assms by (auto simp: generateResearchPlan_try_def falsy_def)

lemma plan_parsed:
  assumes "getAI w = (Inr ai, [])" "generateContent w ai (planning_request m) = Inr r"
          "response_text r = Some t" "t \<noteq> []"
  shows "generateResearchPlan_try w m = (JSON_parse w t, [NetworkCall ai (planning_request m)])"
  using assms by (simp add: generateResearchPlan_try_def falsy_def)

lemma plan_catch:
  "generateResearchPlan_try w m = (Inl e, evs) \<Longrightarrow>
     generateResearchPlan w m = (Inl (planning_catch e), evs @ [ConsoleError ''Detailed Planning Error:''])"
  by (simp add: generateResearchPlan_def)

lemma plan_return:
  "generateResearchPlan_try w m = (Inr v, evs) \<Longrightarrow> generateResearchPlan w m = (Inr v, evs)"
  by (simp add: generateResearchPlan_def)

lemma research_rejected:
  assumes "getAI w = (Inr ai, [])" "generateContent w ai (research_request w m p) = Inl e"
  shows "executeResearch_try w m p = (Inl e, [NetworkCall ai (research_request w m p)])"
  using assms by (simp add: executeResearch_try_def)

lemma research_answered:
  assumes "getAI w = (Inr ai, [])" "generateContent w ai (research_request w m p) = Inr r"
  shows "executeResearch_try w m p =
           (Inr (case response_text r of None \<Rightarrow> ''No research data found.''
                 | Some t \<Rightarrow> if t = [] then ''No research data found.'' else t),
            [NetworkCall ai (research_request w m p)])"
  using assms by (auto simp: executeResearch_try_def falsy_def split: option.splits)

lemma research_catch:
  "executeResearch_try w m p = (Inl e, evs) \<Longrightarrow>
     executeResearch w m p =
       (Inl (Error (Some (execution_context @ message_text e))),
        evs @ [ConsoleError ''Error in executeResearch:''])"
  by (simp add: executeResearch_def execution_context_def)

lemma research_return:
  "executeResearch_try w m p = (Inr v, evs) \<Longrightarrow> executeResearch w m p = (Inr v, evs)"
  by (simp add: executeResearch_def)

lemma analysis_rejected:
  assumes "getAI w = (Inr ai, [])" "generateContent w ai (analysis_request m raw) = Inl e"
  shows "analyzeSignals_try w m raw = (Inl e, [NetworkCall ai (analysis_request m raw)])"
  using assms by (simp add: analyzeSignals_try_def)

lemma analysis_empty:
  assumes "getAI w = (Inr ai, [])" "generateContent w ai (analysis_request m raw) = Inr r"
          "response_text r = None \<or> response_text r = Some []"
  shows "analyzeSignals_try w m raw =
           (Inl (Error (Some ''No analysis received from Gemini.'')),
            [NetworkCall ai (analysis_request m raw)])"
  using assms by (auto simp: analyzeSignals_try_def falsy_def)

lemma analysis_parsed:
  assumes "getAI w = (Inr ai, [])" "generateContent w ai (analysis_request m raw) = Inr r"
          "response_text r = Some t" "t \<noteq> []"
  shows "analyzeSignals_try w m raw = (JSON_parse w t, [NetworkCall ai (analysis_request m raw)])"
  using assms by (simp add: analyzeSignals_try_def falsy_def)

lemma analysis_catch:
  "analyzeSignals_try w m raw = (Inl e, evs) \<Longrightarrow>
     analyzeSignals w m raw =
       (Inl (Error (Some (analysis_context @ message_text e))),
        evs @ [ConsoleError ''Error in analyzeSignals:''])"
  by (simp add: analyzeSignals_def analysis_context_def)

lemma analysis_return:
  "analyzeSignals_try w m raw = (Inr v, evs) \<Longrightarrow> analyzeSignals w m raw = (Inr v, evs)"
  by (simp add: analyzeSignals_def)

lemma try_unusable:
  assumes "getAI w = (Inl e, evs)"
  shows "generateResearchPlan_try w m = (Inl e, evs)"
        "executeResearch_try w m p = (Inl e, evs)"
        "analyzeSignals_try w m raw = (Inl e, evs)"
  using assms
  by (simp_all add: generateResearchPlan_try_def executeResearch_try_def analyzeSignals_try_def)

section \<open>Facts about the concrete platforms\<close>

lemma platform_with_simps [simp]:
  "GEMINI_API_KEY (platform_with key backend) = key"
  "generateContent (platform_with key backend) = backend"
  "JSON_parse (platform_with key backend) = gym_parse"
  by (simp_all add: platform_with_def)

lemma getAI_k123: "getAI (platform_with (Some ''k-123'') backend) = (Inr (GoogleGenAI ''k-123''), [])"
  by (rule getAI_usable [where k = "''k-123''"]) simp_all

section \<open>Properties of the stage operations\<close>

text \<open>
  C1. In each of the three stage operations, when the credential
  \<^verbatim>\<open>GEMINI_API_KEY\<close> is absent, the empty string, the placeholder
  \<^verbatim>\<open>MY_GEMINI_API_KEY\<close> or the string \<^verbatim>\<open>undefined\<close>, the operation fails
  with the "API Key is missing or empty" message behind the stage's context,
  and its effects contain no network call.
\<close>

theorem unusable_key_is_configuration_error:
  assumes "GEMINI_API_KEY w = None \<or> GEMINI_API_KEY w = Some '''' \<or>
           GEMINI_API_KEY w = Some ''MY_GEMINI_API_KEY'' \<or> GEMINI_API_KEY w = Some ''undefined''"
  shows "fst (generateResearchPlan w m) = Inl (Error (Some (planning_context @ missing_key_message)))
       \<and> network_calls (snd (generateResearchPlan w m)) = []
       \<and> fst (executeResearch w m p) = Inl (Error (Some (execution_context @ missing_key_message)))
       \<and> network_calls (snd (executeResearch w m p)) = []
       \<and> fst (analyzeSignals w m raw) = Inl (Error (Some (analysis_context @ missing_key_message)))
       \<and> network_calls (snd (analyzeSignals w m raw)) = []"
proof -
  note g = try_unusable [OF getAI_unusable [OF assms]]
  have 1: "generateResearchPlan w m =
      (Inl (Error (Some (planning_context @ missing_key_message))),
       [ConsoleError ''Gemini Auth Check Failed:'', ConsoleError ''Detailed Planning Error:''])"
    using plan_catch [OF g(1)] by (simp add: planning_catch_plain missing_key_no_marker)
  have 2: "executeResearch w m p =
      (Inl (Error (Some (execution_context @ missing_key_message))),
       [ConsoleError ''Gemini Auth Check Failed:'', ConsoleError ''Error in executeResearch:''])"
    using research_catch [OF g(2)] by simp
  have 3: "analyzeSignals w m raw =
      (Inl (Error (Some (analysis_context @ missing_key_message))),
       [ConsoleError ''Gemini Auth Check Failed:'', ConsoleError ''Error in analyzeSignals:''])"
    using analysis_catch [OF g(3)] by simp
  show ?thesis
    by (simp add: 1 2 3 network_calls_def)
qed

theorem unusable_key_witness:
  "GEMINI_API_KEY placeholder_platform = Some ''MY_GEMINI_API_KEY''
   \<and> fst (generateResearchPlan placeholder_platform ''gym owners'') =
     Inl (Error (Some (planning_context @ missing_key_message)))
   \<and> network_calls (snd (generateResearchPlan placeholder_platform ''gym owners'')) = []
   \<and> fst (executeResearch placeholder_platform ''gym owners'' gym_plan) =
     Inl (Error (Some (execution_context @ missing_key_message)))
   \<and> network_calls (snd (executeResearch placeholder_platform ''gym owners'' gym_plan)) = []
   \<and> fst (analyzeSignals placeholder_platform ''gym owners'' ''raw findings'') =
     Inl (Error (Some (analysis_context @ missing_key_message)))
   \<and> network_calls (snd (analyzeSignals placeholder_platform ''gym owners'' ''raw findings'')) = []"
proof -
  have "GEMINI_API_KEY placeholder_platform = Some ''MY_GEMINI_API_KEY''"
    by (simp add: placeholder_platform_def)
  then have h: "GEMINI_API_KEY placeholder_platform = None \<or>
      GEMINI_API_KEY placeholder_platform = Some '''' \<or>
      GEMINI_API_KEY placeholder_platform = Some ''MY_GEMINI_API_KEY'' \<or>
      GEMINI_API_KEY placeholder_platform = Some ''undefined''"
    by simp
  show ?thesis
    using unusable_key_is_configuration_error [OF h] by (simp add: placeholder_platform_def)
qed

text \<open>
  C3. For every market and plan, when the credential check passes and the
  search-augmented call resolves with an absent or empty text,
  \<^verbatim>\<open>executeResearch\<close> returns the string "No research data found." and
  throws nothing; its only effect is the network call.
\<close>

theorem empty_findings_give_sentinel:
  assumes "GEMINI_API_KEY w = Some k" "k \<noteq> []" "k \<noteq> ''MY_GEMINI_API_KEY''" "k \<noteq> ''undefined''"
      and "generateContent w (GoogleGenAI k) (research_request w m p) = Inr r"
      and "response_text r = None \<or> response_text r = Some []"
  shows "executeResearch w m p =
           (Inr ''No research data found.'', [NetworkCall (GoogleGenAI k) (research_request w m p)])"
proof -
  note ai = getAI_usable [OF assms(1-4)]
  have "executeResearch_try w m p =
          (Inr ''No research data found.'', [NetworkCall (GoogleGenAI k) (research_request w m p)])"
    using research_answered [OF ai assms(5)] assms(6) by auto
  then show ?thesis by (rule research_return)
qed

theorem empty_findings_witness:
  "GEMINI_API_KEY silent_platform = Some ''k-123''
   \<and> generateContent silent_platform (GoogleGenAI ''k-123'')
         (research_request silent_platform ''gym owners'' gym_plan) = Inr \<lparr>response_text = None\<rparr>
   \<and> executeResearch silent_platform ''gym owners'' gym_plan =
     (Inr ''No research data found.'',
      [NetworkCall (GoogleGenAI ''k-123'') (research_request silent_platform ''gym owners'' gym_plan)])"
proof -
  have 1: "GEMINI_API_KEY silent_platform = Some ''k-123''"
    by (simp add: silent_platform_def)
  have 2: "generateContent silent_platform (GoogleGenAI ''k-123'')
             (research_request silent_platform ''gym owners'' gym_plan) = Inr \<lparr>response_text = None\<rparr>"
    by (simp add: silent_platform_def answering_def)
  have "executeResearch silent_platform ''gym owners'' gym_plan =
     (Inr ''No research data found.'',
      [NetworkCall (GoogleGenAI ''k-123'') (research_request silent_platform ''gym owners'' gym_plan)])"
    by (rule empty_findings_give_sentinel [OF 1 _ _ _ 2]) simp_all
  with 1 2 show ?thesis by simp
qed

text \<open>
  C4. In both structured stages, for every input, when the credential check
  passes and the structured-generation call resolves with an absent or empty
  text, the stage returns no value: it fails with its empty-response message
  behind the stage's context.
\<close>

theorem empty_structured_response_fails:
  assumes "GEMINI_API_KEY w = Some k" "k \<noteq> []" "k \<noteq> ''MY_GEMINI_API_KEY''" "k \<noteq> ''undefined''"
  shows "(generateContent w (GoogleGenAI k) (planning_request m) = Inr r \<and>
            (response_text r = None \<or> response_text r = Some []) \<longrightarrow>
          fst (generateResearchPlan w m) =
            Inl (Error (Some (planning_context @ empty_plan_message))))
       \<and> (generateContent w (GoogleGenAI k) (analysis_request m raw) = Inr r' \<and>
            (response_text r' = None \<or> response_text r' = Some []) \<longrightarrow>
          fst (analyzeSignals w m raw) =
            Inl (Error (Some (analysis_context @ ''No analysis received from Gemini.''))))"
proof -
  note ai = getAI_usable [OF assms]
  show ?thesis
  proof (intro conjI impI)
    assume a: "generateContent w (GoogleGenAI k) (planning_request m) = Inr r \<and>
            (response_text r = None \<or> response_text r = Some [])"
    from plan_catch [OF plan_empty [OF ai conjunct1 [OF a] conjunct2 [OF a]]]
    show "fst (generateResearchPlan w m) =
            Inl (Error (Some (planning_context @ empty_plan_message)))"
      by (simp add: planning_catch_plain empty_plan_no_marker)
  next
    assume a: "generateContent w (GoogleGenAI k) (analysis_request m raw) = Inr r' \<and>
            (response_text r' = None \<or> response_text r' = Some [])"
    from analysis_catch [OF analysis_empty [OF ai conjunct1 [OF a] conjunct2 [OF a]]]
    show "fst (analyzeSignals w m raw) =
            Inl (Error (Some (analysis_context @ ''No analysis received from Gemini.'')))"
      by simp
  qed
qed

theorem empty_structured_response_witness:
  "GEMINI_API_KEY blank_platform = Some ''k-123''
   \<and> generateContent blank_platform (GoogleGenAI ''k-123'') (planning_request ''gym owners'') =
       Inr \<lparr>response_text = Some []\<rparr>
   \<and> fst (generateResearchPlan blank_platform ''gym owners'') =
       Inl (Error (Some (planning_context @ empty_plan_message)))
   \<and> generateContent blank_platform (GoogleGenAI ''k-123'')
         (analysis_request ''gym owners'' ''raw findings'') = Inr \<lparr>response_text = Some []\<rparr>
   \<and> fst (analyzeSignals blank_platform ''gym owners'' ''raw findings'') =
       Inl (Error (Some (analysis_context @ ''No analysis received from Gemini.'')))"
proof -
  have 1: "GEMINI_API_KEY blank_platform = Some ''k-123''"
    by (simp add: blank_platform_def)
  have 2: "generateContent blank_platform ai req = Inr \<lparr>response_text = Some []\<rparr>" for ai req
    by (simp add: blank_platform_def answering_def)
  show ?thesis
    using empty_structured_response_fails [OF 1, of "''gym owners''" "\<lparr>response_text = Some []\<rparr>"
        "''raw findings''" "\<lparr>response_text = Some []\<rparr>"]
    by (simp add: 1 2)
qed

lemma matches_plan_fields:
  assumes "matches RESEARCH_PLAN_SCHEMA v"
  shows "field v ''subreddits'' \<noteq> None \<and> field v ''softwareCategories'' \<noteq> None \<and>
         field v ''competitorApps'' \<noteq> None \<and> field v ''searchStrings'' \<noteq> None \<and>
         field v ''nicheForums'' \<noteq> None"
  using assms by (cases v) (simp_all add: RESEARCH_PLAN_SCHEMA_def field_def)

text \<open>
  C5. When the backend's text is well-formed JSON (the parser returns a value
  for it; such a text is not empty) and the value matches
  \<open>RESEARCH_PLAN_SCHEMA\<close>, \<^verbatim>\<open>generateResearchPlan\<close> returns exactly the
  parsed value: each of the five fields \<^verbatim>\<open>subreddits\<close>,
  \<^verbatim>\<open>softwareCategories\<close>, \<^verbatim>\<open>competitorApps\<close>, \<^verbatim>\<open>searchStrings\<close> and
  \<^verbatim>\<open>nicheForums\<close> is present and equals the field of the parsed structure.
\<close>

theorem plan_round_trip:
  assumes "GEMINI_API_KEY w = Some k" "k \<noteq> []" "k \<noteq> ''MY_GEMINI_API_KEY''" "k \<noteq> ''undefined''"
      and "generateContent w (GoogleGenAI k) (planning_request m) = Inr r"
      and "response_text r = Some t" "t \<noteq> []"
      and "JSON_parse w t = Inr v" "matches RESEARCH_PLAN_SCHEMA v"
  shows "\<exists>p. generateResearchPlan w m = (Inr p, [NetworkCall (GoogleGenAI k) (planning_request m)])
           \<and> p = v
           \<and> field p ''subreddits'' = field v ''subreddits'' \<and> field p ''subreddits'' \<noteq> None
           \<and> field p ''softwareCategories'' = field v ''softwareCategories''
           \<and> field p ''softwareCategories'' \<noteq> None
           \<and> field p ''competitorApps'' = field v ''competitorApps''
           \<and> field p ''competitorApps'' \<noteq> None
           \<and> field p ''searchStrings'' = field v ''searchStrings''
           \<and> field p ''searchStrings'' \<noteq> None
           \<and> field p ''nicheForums'' = field v ''nicheForums''
           \<and> field p ''nicheForums'' \<noteq> None"
proof -
  note ai = getAI_usable [OF assms(1-4)]
  have "generateResearchPlan_try w m = (Inr v, [NetworkCall (GoogleGenAI k) (planning_request m)])"
    using plan_parsed [OF ai assms(5-7)] assms(8) by simp
  then have "generateResearchPlan w m = (Inr v, [NetworkCall (GoogleGenAI k) (planning_request m)])"
    by (rule plan_return)
  with matches_plan_fields [OF assms(9)] show ?thesis by simp
qed

lemma gym_plan_text_nonempty: "gym_plan_text \<noteq> []"
  by (simp add: gym_plan_text_def)

lemma gym_plan_matches: "matches RESEARCH_PLAN_SCHEMA gym_plan"
  by (simp add: RESEARCH_PLAN_SCHEMA_def gym_plan_def)

theorem plan_round_trip_witness:
  "GEMINI_API_KEY gym_platform = Some ''k-123''
   \<and> generateContent gym_platform (GoogleGenAI ''k-123'') (planning_request ''gym owners'') =
       Inr \<lparr>response_text = Some gym_plan_text\<rparr>
   \<and> JSON_parse gym_platform gym_plan_text = Inr gym_plan
   \<and> matches RESEARCH_PLAN_SCHEMA gym_plan
   \<and> fst (generateResearchPlan gym_platform ''gym owners'') = Inr gym_plan
   \<and> field gym_plan ''subreddits'' =
       Some (JArray [JObject [(''name'', JString ''r/gymowners''),
                              (''queries'', JArray [JString ''software frustrations''])]])"
proof -
  have 1: "GEMINI_API_KEY gym_platform = Some ''k-123''"
    by (simp add: gym_platform_def)
  have 2: "generateContent gym_platform (GoogleGenAI ''k-123'') (planning_request ''gym owners'') =
       Inr \<lparr>response_text = Some gym_plan_text\<rparr>"
    by (simp add: gym_platform_def answering_def)
  have 3: "JSON_parse gym_platform gym_plan_text = Inr gym_plan"
    by (simp add: gym_platform_def gym_parse_def)
  have 4: "field gym_plan ''subreddits'' =
       Some (JArray [JObject [(''name'', JString ''r/gymowners''),
                              (''queries'', JArray [JString ''software frustrations''])]])"
    by (simp add: field_def gym_plan_def)
  from plan_round_trip [OF 1 _ _ _ 2 _ gym_plan_text_nonempty 3 gym_plan_matches]
  have "fst (generateResearchPlan gym_platform ''gym owners'') = Inr gym_plan"
    by auto
  with 1 2 3 4 gym_plan_matches show ?thesis by simp
qed

lemma getAI_sample:
  "getAI forbidden_platform = (Inr (GoogleGenAI ''k-123''), [])"
  "getAI forbidden_text_platform = (Inr (GoogleGenAI ''k-123''), [])"
  "getAI html_platform = (Inr (GoogleGenAI ''k-123''), [])"
  by (simp_all add: forbidden_platform_def forbidden_text_platform_def html_platform_def getAI_k123)

text \<open>
  C2. The claim is that an underlying message containing "401" or "403" is
  reported as the invalid-credential message whichever stage raised it. Only
  \<^verbatim>\<open>generateResearchPlan\<close> looks for the markers. On a backend that rejects
  every call with "got status: 403 Forbidden", \<^verbatim>\<open>executeResearch\<close> and
  \<^verbatim>\<open>analyzeSignals\<close> report their own prefix followed by that message,
  while \<^verbatim>\<open>generateResearchPlan\<close> reports the invalid-credential message.
\<close>

theorem later_stages_keep_forbidden_message:
  "generateContent forbidden_platform (GoogleGenAI ''k-123'')
       (research_request forbidden_platform ''gym owners'' gym_plan) =
     Inl (Error (Some ''got status: 403 Forbidden''))
   \<and> str_includes ''got status: 403 Forbidden'' ''403''
   \<and> fst (executeResearch forbidden_platform ''gym owners'' gym_plan) =
       Inl (Error (Some ''Research Execution failed: got status: 403 Forbidden''))
   \<and> fst (analyzeSignals forbidden_platform ''gym owners'' ''raw findings'') =
       Inl (Error (Some ''Signal Analysis failed: got status: 403 Forbidden''))
   \<and> fst (generateResearchPlan forbidden_platform ''gym owners'') =
       Inl (Error (Some invalid_key_message))
   \<and> invalid_key_message \<noteq> ''Research Execution failed: got status: 403 Forbidden''
   \<and> invalid_key_message \<noteq> ''Signal Analysis failed: got status: 403 Forbidden''"
proof -
  have b: "generateContent forbidden_platform ai req = Inl (Error (Some ''got status: 403 Forbidden''))"
    for ai req
    by (simp add: forbidden_platform_def rejecting_def)
  have 1: "fst (executeResearch forbidden_platform ''gym owners'' gym_plan) =
       Inl (Error (Some ''Research Execution failed: got status: 403 Forbidden''))"
    using research_catch [OF research_rejected [OF getAI_sample(1) b]]
    by (simp add: execution_context_def)
  have 2: "fst (analyzeSignals forbidden_platform ''gym owners'' ''raw findings'') =
       Inl (Error (Some ''Signal Analysis failed: got status: 403 Forbidden''))"
    using analysis_catch [OF analysis_rejected [OF getAI_sample(1) b]]
    by (simp add: analysis_context_def)
  have 3: "fst (generateResearchPlan forbidden_platform ''gym owners'') =
       Inl (Error (Some invalid_key_message))"
    using plan_catch [OF plan_rejected [OF getAI_sample(1) b]]
    by (simp add: planning_catch_def message_includes_def)
  show ?thesis
    by (simp add: b 1 2 3) (simp add: invalid_key_message_def)
qed

text \<open>
  When the credential check passes and a structured call resolves with a
  non-empty text that the parser rejects, the failure is caught in both
  stages: each returns an error value. \<^verbatim>\<open>analyzeSignals\<close> always reports
  its context followed by the parser's message; \<^verbatim>\<open>generateResearchPlan\<close>
  does so when that message contains none of "401", "403" and "429".
\<close>

lemma parse_failure_is_caught:
  assumes "GEMINI_API_KEY w = Some k" "k \<noteq> []" "k \<noteq> ''MY_GEMINI_API_KEY''" "k \<noteq> ''undefined''"
  shows "(generateContent w (GoogleGenAI k) (planning_request m) = Inr r \<and>
            response_text r = Some t \<and> t \<noteq> [] \<and> JSON_parse w t = Inl e \<longrightarrow>
          (\<exists>e'. fst (generateResearchPlan w m) = Inl e') \<and>
          (\<not> has_marker e \<longrightarrow>
             fst (generateResearchPlan w m) =
               Inl (Error (Some (planning_context @ message_text e)))))
       \<and> (generateContent w (GoogleGenAI k) (analysis_request m raw) = Inr r' \<and>
            response_text r' = Some t' \<and> t' \<noteq> [] \<and> JSON_parse w t' = Inl e \<longrightarrow>
          fst (analyzeSignals w m raw) =
            Inl (Error (Some (analysis_context @ message_text e))))"
proof -
  note ai = getAI_usable [OF assms]
  show ?thesis
  proof (intro conjI impI)
    assume a: "generateContent w (GoogleGenAI k) (planning_request m) = Inr r \<and>
            response_text r = Some t \<and> t \<noteq> [] \<and> JSON_parse w t = Inl e"
    then have "generateResearchPlan_try w m = (Inl e, [NetworkCall (GoogleGenAI k) (planning_request m)])"
      using plan_parsed [OF ai, of m r t] by simp
    from plan_catch [OF this]
    have c: "fst (generateResearchPlan w m) = Inl (planning_catch e)" by simp
    then show "\<exists>e'. fst (generateResearchPlan w m) = Inl e'" by blast
    assume "\<not> has_marker e"
    with c show "fst (generateResearchPlan w m) =
               Inl (Error (Some (planning_context @ message_text e)))"
      by (simp add: planning_catch_plain)
  next
    assume a: "generateContent w (GoogleGenAI k) (analysis_request m raw) = Inr r' \<and>
            response_text r' = Some t' \<and> t' \<noteq> [] \<and> JSON_parse w t' = Inl e"
    then have "analyzeSignals_try w m raw =
        (Inl e, [NetworkCall (GoogleGenAI k) (analysis_request m raw)])"
      using analysis_parsed [OF ai, of m raw r' t'] by simp
    from analysis_catch [OF this]
    show "fst (analyzeSignals w m raw) = Inl (Error (Some (analysis_context @ message_text e)))"
      by simp
  qed
qed

lemma html_no_marker: "\<not> has_marker (not_valid_json ''<html>'')"
  by (simp add: has_marker_def message_includes_def not_valid_json_def quoted_def)

lemma parse_failure_is_caught_html:
  "GEMINI_API_KEY html_platform = Some ''k-123''
   \<and> generateContent html_platform (GoogleGenAI ''k-123'') (planning_request ''gym owners'') =
       Inr \<lparr>response_text = Some ''<html>''\<rparr>
   \<and> generateContent html_platform (GoogleGenAI ''k-123'')
        (analysis_request ''gym owners'' ''raw findings'') = Inr \<lparr>response_text = Some ''<html>''\<rparr>
   \<and> JSON_parse html_platform ''<html>'' = Inl (not_valid_json ''<html>'')
   \<and> \<not> has_marker (not_valid_json ''<html>'')
   \<and> fst (generateResearchPlan html_platform ''gym owners'') =
       Inl (Error (Some (planning_context @ message_text (not_valid_json ''<html>''))))
   \<and> fst (analyzeSignals html_platform ''gym owners'' ''raw findings'') =
       Inl (Error (Some (analysis_context @ message_text (not_valid_json ''<html>''))))"
proof -
  have 1: "GEMINI_API_KEY html_platform = Some ''k-123''"
    by (simp add: html_platform_def)
  have 2: "generateContent html_platform ai req = Inr \<lparr>response_text = Some ''<html>''\<rparr>" for ai req
    by (simp add: html_platform_def answering_def)
  have 3: "JSON_parse html_platform ''<html>'' = Inl (not_valid_json ''<html>'')"
    by (simp add: html_platform_def gym_parse_def gym_plan_text_def quoted_def)
  show ?thesis
    using parse_failure_is_caught [OF 1, of "''gym owners''" "\<lparr>response_text = Some ''<html>''\<rparr>"
        "''<html>''" "not_valid_json ''<html>''" "''raw findings''"
        "\<lparr>response_text = Some ''<html>''\<rparr>" "''<html>''"]
    by (simp add: 1 2 3 html_no_marker)
qed

text \<open>
  C6. The claim is that, for every text the parser rejects, both structured
  stages surface the parse failure as their own wrapped error: the stage's
  context followed by the parser's message. \<^verbatim>\<open>generateResearchPlan\<close> does
  not when the parser's message contains a marker: its \<^verbatim>\<open>catch\<close> block,
  commented "Check for specific API errors", applies the marker checks to
  every error it catches. V8 quotes the rejected text in its message, so for
  the text "Error 403: Forbidden" the stage reports the invalid-credential
  message and not the planning context followed by the parser's message.
\<close>

theorem parse_failure_reported_as_invalid_key:
  "generateContent forbidden_text_platform (GoogleGenAI ''k-123'') (planning_request ''gym owners'') =
     Inr \<lparr>response_text = Some ''Error 403: Forbidden''\<rparr>
   \<and> JSON_parse forbidden_text_platform ''Error 403: Forbidden'' =
       Inl (not_valid_json ''Error 403: Forbidden'')
   \<and> fst (generateResearchPlan forbidden_text_platform ''gym owners'') =
       Inl (Error (Some invalid_key_message))
   \<and> invalid_key_message \<noteq>
       planning_context @ message_text (not_valid_json ''Error 403: Forbidden'')"
proof -
  have b: "generateContent forbidden_text_platform (GoogleGenAI ''k-123'') (planning_request ''gym owners'') =
     Inr \<lparr>response_text = Some ''Error 403: Forbidden''\<rparr>"
    by (simp add: forbidden_text_platform_def answering_def)
  have p: "JSON_parse forbidden_text_platform ''Error 403: Forbidden'' =
       Inl (not_valid_json ''Error 403: Forbidden'')"
    by (simp add: forbidden_text_platform_def gym_parse_def gym_plan_text_def quoted_def)
  have "generateResearchPlan_try forbidden_text_platform ''gym owners'' =
      (Inl (not_valid_json ''Error 403: Forbidden''),
       [NetworkCall (GoogleGenAI ''k-123'') (planning_request ''gym owners'')])"
    using plan_parsed [OF getAI_sample(2) b] p by simp
  from plan_catch [OF this]
  have 1: "fst (generateResearchPlan forbidden_text_platform ''gym owners'') =
       Inl (Error (Some invalid_key_message))"
    by (simp add: planning_catch_def message_includes_def not_valid_json_def quoted_def)
  show ?thesis
    by (simp add: b p 1) (simp add: invalid_key_message_def planning_context_def)
qed

section \<open>Properties of the caller\<close>

lemma startResearch_blank:
  "js_trim (market s) = [] \<Longrightarrow> startResearch w s = (s, [])"
  by (simp add: startResearch_def falsy_def)

lemma startResearch_gated:
  assumes "js_trim (market s) \<noteq> []" "session s = Some sess" "profile s = Some p"
          "\<not> is_pro p" "credits_used p \<ge> 3"
  shows "startResearch w s = (s\<lparr>error := Some free_limit_message\<rparr>, [])"
  using assms by (simp add: startResearch_def falsy_def)

lemma startResearch_runs:
  assumes "js_trim (market s) \<noteq> []" "session s = Some sess"
          "profile s = None \<or> (\<exists>p. profile s = Some p \<and> (is_pro p \<or> credits_used p < 3))"
  shows "startResearch w s =
           (case startResearch_try w sess
                   (s\<lparr>stage := PLANNING, error := None, plan := None, report := None,
                      progressText := ''Planning your research strategy...''\<rparr>) of
              (None, s', evs) \<Rightarrow> (s', [SetStage PLANNING] @ evs)
            | (Some err, s', evs) \<Rightarrow>
                (s'\<lparr>error := Some (shown_error err), stage := ERROR\<rparr>,
                 [SetStage PLANNING] @ evs @
                 [ConsoleError ''Research Error Details:'', SetStage ERROR]))"
  using assms by (auto simp: startResearch_def falsy_def)

lemma try_stage1_fails:
  assumes "generateResearchPlan w (market s) = (Inl e, evs)"
  shows "startResearch_try w sess s = (Some e, s, evs)"
  using assms by (simp add: startResearch_try_def)

lemma gym_owners_not_blank: "js_trim ''gym owners'' \<noteq> []"
  by (simp add: js_trim_def js_whitespace_def)

lemma shown_error_Some: "m \<noteq> [] \<Longrightarrow> shown_error (Error (Some m)) = m"
  by (simp add: shown_error_def falsy_def)

lemma invalid_key_nonempty: "invalid_key_message \<noteq> []"
  by (simp add: invalid_key_message_def)

lemma rate_limit_nonempty: "rate_limit_message \<noteq> []"
  by (simp add: rate_limit_message_def)

lemma planning_catch_cases:
  "planning_catch u =
     Error (Some (if message_includes u ''403'' \<or> message_includes u ''401'' then invalid_key_message
                  else if message_includes u ''429'' then rate_limit_message
                  else planning_context @ message_text u))"
  by (simp add: planning_catch_def planning_context_def)

lemma stage_failure_message:
  "fst (generateResearchPlan w m) = Inl e \<Longrightarrow> shown_error e = message_text e"
  "fst (executeResearch w m p) = Inl e \<Longrightarrow> shown_error e = message_text e"
  "fst (analyzeSignals w m raw) = Inl e \<Longrightarrow> shown_error e = message_text e"
proof -
  assume "fst (generateResearchPlan w m) = Inl e"
  then obtain u where "e = planning_catch u"
    by (auto simp: generateResearchPlan_def split: prod.splits sum.splits)
  then show "shown_error e = message_text e"
    by (simp add: planning_catch_cases shown_error_Some invalid_key_nonempty rate_limit_nonempty
        planning_context_def)
next
  assume "fst (executeResearch w m p) = Inl e"
  then obtain u where "e = Error (Some (''Research Execution failed: '' @ message_text u))"
    by (auto simp: executeResearch_def split: prod.splits sum.splits)
  then show "shown_error e = message_text e"
    by (simp add: shown_error_Some)
next
  assume "fst (analyzeSignals w m raw) = Inl e"
  then obtain u where "e = Error (Some (''Signal Analysis failed: '' @ message_text u))"
    by (auto simp: analyzeSignals_def split: prod.splits sum.splits)
  then show "shown_error e = message_text e"
    by (simp add: shown_error_Some)
qed

lemma research_step_stage2_fails:
  assumes "scanning_text w pl = Inr shown" "executeResearch w (market s) pl = (Inl e, evs)"
  shows "\<exists>s' evs'. research_step w sess s pl = (Some e, s', evs')"
  using assms by (simp add: research_step_def Let_def)

lemma analyze_step_fails:
  assumes "analyzeSignals w (market s) rawData = (Inl e, evs)"
  shows "\<exists>s' evs'. analyze_step w sess s rawData = (Some e, s', evs')"
  using assms by (simp add: analyze_step_def Let_def)

lemma research_step_stage3_fails:
  assumes "scanning_text w pl = Inr shown" "executeResearch w (market s) pl = (Inr rawData, evs)"
          "analyzeSignals w (market s) rawData = (Inl e, evs3)"
  shows "\<exists>s' evs'. research_step w sess s pl = (Some e, s', evs')"
proof -
  obtain s' evs' where
    "analyze_step w sess (s\<lparr>plan := Some pl, stage := RESEARCHING, progressText := shown\<rparr>) rawData =
       (Some e, s', evs')"
    using analyze_step_fails [of w "s\<lparr>plan := Some pl, stage := RESEARCHING, progressText := shown\<rparr>"
        rawData e evs3 sess] assms(3)
    by auto
  with assms(1,2) show ?thesis by (simp add: research_step_def Let_def)
qed

lemma startResearch_shows_thrown:
  assumes "js_trim (market s) \<noteq> []" "session s = Some sess"
          "profile s = None \<or> (\<exists>p. profile s = Some p \<and> (is_pro p \<or> credits_used p < 3))"
      and "startResearch_try w sess
             (s\<lparr>stage := PLANNING, error := None, plan := None, report := None,
                progressText := ''Planning your research strategy...''\<rparr>) = (Some e, s', evs)"
  shows "error (fst (startResearch w s)) = Some (shown_error e)"
        "stage (fst (startResearch w s)) = ERROR"
  by (simp_all add: startResearch_runs [OF assms(1-3)] assms(4))

lemma try_stage2_fails:
  assumes "fst (generateResearchPlan w (market s)) = Inr pl" "scanning_text w pl = Inr shown"
          "fst (executeResearch w (market s) pl) = Inl e"
  shows "\<exists>s' evs. startResearch_try w sess s = (Some e, s', evs)"
proof -
  obtain evs1 where 1: "generateResearchPlan w (market s) = (Inr pl, evs1)"
    using assms(1) by (cases "generateResearchPlan w (market s)") simp
  obtain evs2 where 2: "executeResearch w (market s) pl = (Inl e, evs2)"
    using assms(3) by (cases "executeResearch w (market s) pl") simp
  obtain s' evs' where "research_step w sess s pl = (Some e, s', evs')"
    using research_step_stage2_fails [OF assms(2) 2] by blast
  with 1 show ?thesis by (simp add: startResearch_try_def)
qed

lemma try_stage3_fails:
  assumes "fst (generateResearchPlan w (market s)) = Inr pl" "scanning_text w pl = Inr shown"
          "fst (executeResearch w (market s) pl) = Inr rawData"
          "fst (analyzeSignals w (market s) rawData) = Inl e"
  shows "\<exists>s' evs. startResearch_try w sess s = (Some e, s', evs)"
proof -
  obtain evs1 where 1: "generateResearchPlan w (market s) = (Inr pl, evs1)"
    using assms(1) by (cases "generateResearchPlan w (market s)") simp
  obtain evs2 where 2: "executeResearch w (market s) pl = (Inr rawData, evs2)"
    using assms(3) by (cases "executeResearch w (market s) pl") simp
  obtain evs3 where 3: "analyzeSignals w (market s) rawData = (Inl e, evs3)"
    using assms(4) by (cases "analyzeSignals w (market s) rawData") simp
  obtain s' evs' where "research_step w sess s pl = (Some e, s', evs')"
    using research_step_stage3_fails [OF assms(2) 2 3] by blast
  with 1 show ?thesis by (simp add: startResearch_try_def)
qed

text \<open>
  A failure of any of the three stages inside a run is what the caller shows:
  the error state is the message of the error the stage threw, and the run
  stage is \<open>ERROR\<close>.
\<close>

lemma startResearch_shows_stage_failure:
  assumes run: "js_trim (market s) \<noteq> []" "session s = Some sess"
          "profile s = None \<or> (\<exists>p. profile s = Some p \<and> (is_pro p \<or> credits_used p < 3))"
  shows "fst (generateResearchPlan w (market s)) = Inl e \<Longrightarrow>
           error (fst (startResearch w s)) = Some (message_text e) \<and>
           stage (fst (startResearch w s)) = ERROR"
    and "fst (generateResearchPlan w (market s)) = Inr pl \<Longrightarrow> scanning_text w pl = Inr shown \<Longrightarrow>
         fst (executeResearch w (market s) pl) = Inl e \<Longrightarrow>
           error (fst (startResearch w s)) = Some (message_text e) \<and>
           stage (fst (startResearch w s)) = ERROR"
    and "fst (generateResearchPlan w (market s)) = Inr pl \<Longrightarrow> scanning_text w pl = Inr shown \<Longrightarrow>
         fst (executeResearch w (market s) pl) = Inr rawData \<Longrightarrow>
         fst (analyzeSignals w (market s) rawData) = Inl e \<Longrightarrow>
           error (fst (startResearch w s)) = Some (message_text e) \<and>
           stage (fst (startResearch w s)) = ERROR"
proof -
  let ?s = "s\<lparr>stage := PLANNING, error := None, plan := None, report := None,
              progressText := ''Planning your research strategy...''\<rparr>"
  have m: "market ?s = market s" by simp
  {
    assume f: "fst (generateResearchPlan w (market s)) = Inl e"
    then obtain evs where "generateResearchPlan w (market ?s) = (Inl e, evs)"
      by (cases "generateResearchPlan w (market s)") simp
    then have "startResearch_try w sess ?s = (Some e, ?s, evs)"
      by (rule try_stage1_fails)
    from startResearch_shows_thrown [OF run this] stage_failure_message(1) [OF f]
    show "error (fst (startResearch w s)) = Some (message_text e) \<and>
           stage (fst (startResearch w s)) = ERROR" by simp
  }
  {
    assume a: "fst (generateResearchPlan w (market s)) = Inr pl" "scanning_text w pl = Inr shown"
      "fst (executeResearch w (market s) pl) = Inl e"
    then obtain s' evs where "startResearch_try w sess ?s = (Some e, s', evs)"
      using try_stage2_fails [of w ?s pl shown e sess] by auto
    from startResearch_shows_thrown [OF run this] stage_failure_message(2) [OF a(3)]
    show "error (fst (startResearch w s)) = Some (message_text e) \<and>
           stage (fst (startResearch w s)) = ERROR" by simp
  }
  {
    assume a: "fst (generateResearchPlan w (market s)) = Inr pl" "scanning_text w pl = Inr shown"
      "fst (executeResearch w (market s) pl) = Inr rawData"
      "fst (analyzeSignals w (market s) rawData) = Inl e"
    then obtain s' evs where "startResearch_try w sess ?s = (Some e, s', evs)"
      using try_stage3_fails [of w ?s pl shown rawData e sess] by auto
    from startResearch_shows_thrown [OF run this] stage_failure_message(3) [OF a(4)]
    show "error (fst (startResearch w s)) = Some (message_text e) \<and>
           stage (fst (startResearch w s)) = ERROR" by simp
  }
qed

text \<open>
  C7, amended. In a run that \<^verbatim>\<open>startResearch\<close> starts (market not blank,
  session present, credit gate passed), for every stage failure the message
  in the \<^verbatim>\<open>error\<close> state, which the page shows, is the message of the error
  the stage threw, never the generic fallback, and the run stage is
  \<open>ERROR\<close>. When the underlying message contains none of "401", "403" and
  "429", the message shown is the failing stage's context followed by the
  underlying message. When the backend call of \<^verbatim>\<open>generateResearchPlan\<close>
  rejects, the message shown is the invalid-credential message if the
  rejection's message contains "403" or "401", the rate-limit message if it
  contains "429" and neither of those, and otherwise the planning context
  followed by the rejection's message; the two reclassified messages do not
  carry the planning context. (The second and third stage are reached only
  after the progress text of line 152 has been built without a throw.)
\<close>

theorem shown_message_by_stage:
  assumes "js_trim (market s) \<noteq> []" "session s = Some sess"
          "profile s = None \<or> (\<exists>p. profile s = Some p \<and> (is_pro p \<or> credits_used p < 3))"
  shows "(fst (generateResearchPlan w (market s)) = Inl e1 \<longrightarrow>
            error (fst (startResearch w s)) = Some (message_text e1) \<and>
            stage (fst (startResearch w s)) = ERROR)
       \<and> (fst (generateResearchPlan w (market s)) = Inr pl \<and> scanning_text w pl = Inr shown \<and>
          fst (executeResearch w (market s) pl) = Inl e2 \<longrightarrow>
            error (fst (startResearch w s)) = Some (message_text e2) \<and>
            stage (fst (startResearch w s)) = ERROR)
       \<and> (fst (generateResearchPlan w (market s)) = Inr pl \<and> scanning_text w pl = Inr shown \<and>
          fst (executeResearch w (market s) pl) = Inr rawData \<and>
          fst (analyzeSignals w (market s) rawData) = Inl e3 \<longrightarrow>
            error (fst (startResearch w s)) = Some (message_text e3) \<and>
            stage (fst (startResearch w s)) = ERROR)
       \<and> (generateResearchPlan_try w (market s) = (Inl u1, evs1) \<and> \<not> has_marker u1 \<longrightarrow>
            error (fst (startResearch w s)) = Some (planning_context @ message_text u1))
       \<and> (fst (generateResearchPlan w (market s)) = Inr pl \<and> scanning_text w pl = Inr shown \<and>
          executeResearch_try w (market s) pl = (Inl u2, evs2) \<and> \<not> has_marker u2 \<longrightarrow>
            error (fst (startResearch w s)) = Some (execution_context @ message_text u2))
       \<and> (fst (generateResearchPlan w (market s)) = Inr pl \<and> scanning_text w pl = Inr shown \<and>
          fst (executeResearch w (market s) pl) = Inr rawData \<and>
          analyzeSignals_try w (market s) rawData = (Inl u3, evs3) \<and> \<not> has_marker u3 \<longrightarrow>
            error (fst (startResearch w s)) = Some (analysis_context @ message_text u3))
       \<and> (getAI w = (Inr ai, []) \<and> generateContent w ai (planning_request (market s)) = Inl u \<longrightarrow>
            error (fst (startResearch w s)) =
              Some (if message_includes u ''403'' \<or> message_includes u ''401''
                    then invalid_key_message
                    else if message_includes u ''429'' then rate_limit_message
                    else planning_context @ message_text u))
       \<and> \<not> starts_with invalid_key_message planning_context
       \<and> \<not> starts_with rate_limit_message planning_context"
proof -
  note link = startResearch_shows_stage_failure [OF assms, of w]
  have 1: "fst (generateResearchPlan w (market s)) = Inl e1 \<longrightarrow>
            error (fst (startResearch w s)) = Some (message_text e1) \<and>
            stage (fst (startResearch w s)) = ERROR"
    using link(1) by blast
  have 2: "fst (generateResearchPlan w (market s)) = Inr pl \<and> scanning_text w pl = Inr shown \<and>
          fst (executeResearch w (market s) pl) = Inl e2 \<longrightarrow>
            error (fst (startResearch w s)) = Some (message_text e2) \<and>
            stage (fst (startResearch w s)) = ERROR"
    using link(2) by blast
  have 3: "fst (generateResearchPlan w (market s)) = Inr pl \<and> scanning_text w pl = Inr shown \<and>
          fst (executeResearch w (market s) pl) = Inr rawData \<and>
          fst (analyzeSignals w (market s) rawData) = Inl e3 \<longrightarrow>
            error (fst (startResearch w s)) = Some (message_text e3) \<and>
            stage (fst (startResearch w s)) = ERROR"
    using link(3) by blast
  have 4: "generateResearchPlan_try w (market s) = (Inl u1, evs1) \<and> \<not> has_marker u1 \<longrightarrow>
            error (fst (startResearch w s)) = Some (planning_context @ message_text u1)"
  proof
    assume a: "generateResearchPlan_try w (market s) = (Inl u1, evs1) \<and> \<not> has_marker u1"
    then have "fst (generateResearchPlan w (market s)) =
        Inl (Error (Some (planning_context @ message_text u1)))"
      using plan_catch [of w "market s" u1 evs1] by (simp add: planning_catch_plain)
    from link(1) [OF this]
    show "error (fst (startResearch w s)) = Some (planning_context @ message_text u1)" by simp
  qed
  have 5: "fst (generateResearchPlan w (market s)) = Inr pl \<and> scanning_text w pl = Inr shown \<and>
          executeResearch_try w (market s) pl = (Inl u2, evs2) \<and> \<not> has_marker u2 \<longrightarrow>
            error (fst (startResearch w s)) = Some (execution_context @ message_text u2)"
  proof
    assume a: "fst (generateResearchPlan w (market s)) = Inr pl \<and> scanning_text w pl = Inr shown \<and>
          executeResearch_try w (market s) pl = (Inl u2, evs2) \<and> \<not> has_marker u2"
    then have "fst (executeResearch w (market s) pl) =
        Inl (Error (Some (execution_context @ message_text u2)))"
      using research_catch [of w "market s" pl u2 evs2] by simp
    from link(2) [OF _ _ this, of shown] a
    show "error (fst (startResearch w s)) = Some (execution_context @ message_text u2)" by simp
  qed
  have 6: "fst (generateResearchPlan w (market s)) = Inr pl \<and> scanning_text w pl = Inr shown \<and>
          fst (executeResearch w (market s) pl) = Inr rawData \<and>
          analyzeSignals_try w (market s) rawData = (Inl u3, evs3) \<and> \<not> has_marker u3 \<longrightarrow>
            error (fst (startResearch w s)) = Some (analysis_context @ message_text u3)"
  proof
    assume a: "fst (generateResearchPlan w (market s)) = Inr pl \<and> scanning_text w pl = Inr shown \<and>
          fst (executeResearch w (market s) pl) = Inr rawData \<and>
          analyzeSignals_try w (market s) rawData = (Inl u3, evs3) \<and> \<not> has_marker u3"
    then have "fst (analyzeSignals w (market s) rawData) =
        Inl (Error (Some (analysis_context @ message_text u3)))"
      using analysis_catch [of w "market s" rawData u3 evs3] by simp
    from link(3) [OF _ _ _ this, of pl shown] a
    show "error (fst (startResearch w s)) = Some (analysis_context @ message_text u3)" by simp
  qed
  have 7: "getAI w = (Inr ai, []) \<and> generateContent w ai (planning_request (market s)) = Inl u \<longrightarrow>
            error (fst (startResearch w s)) =
              Some (if message_includes u ''403'' \<or> message_includes u ''401''
                    then invalid_key_message
                    else if message_includes u ''429'' then rate_limit_message
                    else planning_context @ message_text u)"
  proof
    assume "getAI w = (Inr ai, []) \<and> generateContent w ai (planning_request (market s)) = Inl u"
    then have "generateResearchPlan_try w (market s) =
        (Inl u, [NetworkCall ai (planning_request (market s))])"
      by (simp add: plan_rejected)
    from plan_catch [OF this]
    have "fst (generateResearchPlan w (market s)) = Inl (planning_catch u)" by simp
    from link(1) [OF this]
    show "error (fst (startResearch w s)) =
              Some (if message_includes u ''403'' \<or> message_includes u ''401''
                    then invalid_key_message
                    else if message_includes u ''429'' then rate_limit_message
                    else planning_context @ message_text u)"
      by (simp add: planning_catch_cases)
  qed
  have 8: "\<not> starts_with invalid_key_message planning_context"
    by (simp add: invalid_key_message_def planning_context_def)
  have 9: "\<not> starts_with rate_limit_message planning_context"
    by (simp add: rate_limit_message_def planning_context_def)
  from 1 2 3 4 5 6 7 8 9 show ?thesis by blast
qed

lemma request_kinds:
  "tools (config (planning_request m)) = None"
  "responseSchema (config (planning_request m)) = Some RESEARCH_PLAN_SCHEMA"
  "tools (config (research_request w m p)) = Some [GoogleSearch]"
  "tools (config (analysis_request m raw)) = None"
  "responseSchema (config (analysis_request m raw)) = Some SIGNAL_REPORT_SCHEMA"
  by (simp_all add: planning_request_def research_request_def analysis_request_def)

lemma schemas_differ: "SIGNAL_REPORT_SCHEMA \<noteq> RESEARCH_PLAN_SCHEMA"
  by (simp add: SIGNAL_REPORT_SCHEMA_def RESEARCH_PLAN_SCHEMA_def)

lemma staged_answers:
  "staged a b c ai (planning_request m) = a"
  "staged a b c ai (research_request w m p) = b"
  "staged a b c ai (analysis_request m raw) = c"
  by (simp_all add: staged_def request_kinds schemas_differ)

lemma idle_runs:
  "js_trim (market idle_state) \<noteq> []" "session idle_state = Some (Session ''u1'')"
  "profile idle_state = None \<or>
     (\<exists>p. profile idle_state = Some p \<and> (is_pro p \<or> credits_used p < 3))"
  "market idle_state = ''gym owners''"
  by (simp_all add: idle_state_def gym_owners_not_blank)

lemma digits_0_1: "char_of (49::nat) = CHR ''1''" "char_of (48::nat) = CHR ''0''"
  by code_simp+

lemma gym_scanning:
  "scanning_text (platform_with key backend) gym_plan =
     Inr ''Scanning 1 subreddits and 0 software categories...''"
  by (simp add: scanning_text_def length_text_def gym_plan_def interpolate_def digits_0_1)

lemma staged_plan_parsed:
  "generateResearchPlan
     (platform_with (Some ''k-123'') (staged (Inr \<lparr>response_text = Some gym_plan_text\<rparr>) b c))
     ''gym owners'' =
   (Inr gym_plan, [NetworkCall (GoogleGenAI ''k-123'') (planning_request ''gym owners'')])"
proof -
  let ?w = "platform_with (Some ''k-123'') (staged (Inr \<lparr>response_text = Some gym_plan_text\<rparr>) b c)"
  have "generateResearchPlan_try ?w ''gym owners'' =
      (JSON_parse ?w gym_plan_text, [NetworkCall (GoogleGenAI ''k-123'') (planning_request ''gym owners'')])"
    by (rule plan_parsed [OF getAI_k123, where r = "\<lparr>response_text = Some gym_plan_text\<rparr>"])
       (simp_all add: staged_answers gym_plan_text_nonempty)
  then have "generateResearchPlan_try ?w ''gym owners'' =
      (Inr gym_plan, [NetworkCall (GoogleGenAI ''k-123'') (planning_request ''gym owners'')])"
    by (simp add: gym_parse_def)
  then show ?thesis by (rule plan_return)
qed

theorem shown_message_witness:
  "js_trim (market idle_state) \<noteq> [] \<and> session idle_state = Some (Session ''u1'')
   \<and> profile idle_state = None
   \<and> generateResearchPlan_try offline_platform (market idle_state) =
       (Inl (Error (Some ''fetch failed'')),
        [NetworkCall (GoogleGenAI ''k-123'') (planning_request ''gym owners'')])
   \<and> \<not> has_marker (Error (Some ''fetch failed''))
   \<and> error (fst (startResearch offline_platform idle_state)) =
       Some ''Research Planning failed: fetch failed''
   \<and> stage (fst (startResearch offline_platform idle_state)) = ERROR
   \<and> fst (generateResearchPlan research_down_platform (market idle_state)) = Inr gym_plan
   \<and> scanning_text research_down_platform gym_plan =
       Inr ''Scanning 1 subreddits and 0 software categories...''
   \<and> executeResearch_try research_down_platform (market idle_state) gym_plan =
       (Inl (Error (Some ''fetch failed'')),
        [NetworkCall (GoogleGenAI ''k-123'')
           (research_request research_down_platform ''gym owners'' gym_plan)])
   \<and> error (fst (startResearch research_down_platform idle_state)) =
       Some ''Research Execution failed: fetch failed''
   \<and> stage (fst (startResearch research_down_platform idle_state)) = ERROR
   \<and> fst (generateResearchPlan analysis_down_platform (market idle_state)) = Inr gym_plan
   \<and> scanning_text analysis_down_platform gym_plan =
       Inr ''Scanning 1 subreddits and 0 software categories...''
   \<and> fst (executeResearch analysis_down_platform (market idle_state) gym_plan) =
       Inr ''Owners repeatedly complain about scheduling software losing bookings.''
   \<and> analyzeSignals_try analysis_down_platform (market idle_state)
         ''Owners repeatedly complain about scheduling software losing bookings.'' =
       (Inl (Error (Some ''fetch failed'')),
        [NetworkCall (GoogleGenAI ''k-123'')
           (analysis_request ''gym owners''
              ''Owners repeatedly complain about scheduling software losing bookings.'')])
   \<and> error (fst (startResearch analysis_down_platform idle_state)) =
       Some ''Signal Analysis failed: fetch failed''
   \<and> stage (fst (startResearch analysis_down_platform idle_state)) = ERROR
   \<and> getAI forbidden_platform = (Inr (GoogleGenAI ''k-123''), [])
   \<and> generateContent forbidden_platform (GoogleGenAI ''k-123'')
         (planning_request (market idle_state)) = Inl (Error (Some ''got status: 403 Forbidden''))
   \<and> error (fst (startResearch forbidden_platform idle_state)) = Some invalid_key_message"
proof -
  let ?findings = "''Owners repeatedly complain about scheduling software losing bookings.''"
  let ?failed = "Error (Some ''fetch failed'')"
  have n: "\<not> has_marker ?failed"
    by (simp add: has_marker_def message_includes_def)
  have p0: "profile idle_state = None" by (simp add: idle_state_def)

  have ai1: "getAI offline_platform = (Inr (GoogleGenAI ''k-123''), [])"
    by (simp add: offline_platform_def getAI_k123)
  have b1: "generateContent offline_platform ai req = Inl ?failed" for ai req
    by (simp add: offline_platform_def rejecting_def)
  have t1: "generateResearchPlan_try offline_platform (market idle_state) =
      (Inl ?failed, [NetworkCall (GoogleGenAI ''k-123'') (planning_request ''gym owners'')])"
    using plan_rejected [OF ai1 b1, of "''gym owners''"] by (simp add: idle_runs(4))
  have r1: "error (fst (startResearch offline_platform idle_state)) =
       Some ''Research Planning failed: fetch failed''
     \<and> stage (fst (startResearch offline_platform idle_state)) = ERROR"
    using shown_message_by_stage [OF idle_runs(1-3), of offline_platform
        "Error (Some ''Research Planning failed: fetch failed'')" gym_plan "[]" ?failed "[]" ?failed
        ?failed "[NetworkCall (GoogleGenAI ''k-123'') (planning_request ''gym owners'')]"
        ?failed "[]" ?failed "[]" "GoogleGenAI ''k-123''" ?failed]
      t1 n plan_catch [OF t1]
    by (simp add: planning_catch_plain planning_context_def)

  have ai2: "getAI research_down_platform = (Inr (GoogleGenAI ''k-123''), [])"
    by (simp add: research_down_platform_def getAI_k123)
  have g2: "generateResearchPlan research_down_platform ''gym owners'' =
      (Inr gym_plan, [NetworkCall (GoogleGenAI ''k-123'') (planning_request ''gym owners'')])"
    by (simp add: research_down_platform_def staged_plan_parsed)
  have s2: "scanning_text research_down_platform gym_plan =
       Inr ''Scanning 1 subreddits and 0 software categories...''"
    by (simp add: research_down_platform_def gym_scanning)
  have b2: "generateContent research_down_platform (GoogleGenAI ''k-123'')
      (research_request research_down_platform ''gym owners'' gym_plan) = Inl ?failed"
    by (simp add: research_down_platform_def staged_answers)
  note t2 = research_rejected [OF ai2 b2]
  have r2: "error (fst (startResearch research_down_platform idle_state)) =
       Some ''Research Execution failed: fetch failed''
     \<and> stage (fst (startResearch research_down_platform idle_state)) = ERROR"
    using shown_message_by_stage [OF idle_runs(1-3), of research_down_platform
        ?failed gym_plan "''Scanning 1 subreddits and 0 software categories...''"
        "Error (Some ''Research Execution failed: fetch failed'')" "[]" ?failed
        ?failed "[]" ?failed
        "[NetworkCall (GoogleGenAI ''k-123'')
           (research_request research_down_platform ''gym owners'' gym_plan)]"
        ?failed "[]" "GoogleGenAI ''k-123''" ?failed]
      g2 s2 t2 n research_catch [OF t2]
    by (simp add: idle_runs(4) execution_context_def)

  have ai3: "getAI analysis_down_platform = (Inr (GoogleGenAI ''k-123''), [])"
    by (simp add: analysis_down_platform_def getAI_k123)
  have g3: "generateResearchPlan analysis_down_platform ''gym owners'' =
      (Inr gym_plan, [NetworkCall (GoogleGenAI ''k-123'') (planning_request ''gym owners'')])"
    by (simp add: analysis_down_platform_def staged_plan_parsed)
  have s3: "scanning_text analysis_down_platform gym_plan =
       Inr ''Scanning 1 subreddits and 0 software categories...''"
    by (simp add: analysis_down_platform_def gym_scanning)
  have b3: "generateContent analysis_down_platform (GoogleGenAI ''k-123'')
      (research_request analysis_down_platform ''gym owners'' gym_plan) =
      Inr \<lparr>response_text = Some ?findings\<rparr>"
    by (simp add: analysis_down_platform_def staged_answers)
  have e3: "executeResearch analysis_down_platform ''gym owners'' gym_plan =
      (Inr ?findings,
       [NetworkCall (GoogleGenAI ''k-123'')
          (research_request analysis_down_platform ''gym owners'' gym_plan)])"
    using research_return [OF research_answered [OF ai3 b3]] by simp
  have c3: "generateContent analysis_down_platform (GoogleGenAI ''k-123'')
      (analysis_request ''gym owners'' ?findings) = Inl ?failed"
    by (simp add: analysis_down_platform_def staged_answers)
  note t3 = analysis_rejected [OF ai3 c3]
  have r3: "error (fst (startResearch analysis_down_platform idle_state)) =
       Some ''Signal Analysis failed: fetch failed''
     \<and> stage (fst (startResearch analysis_down_platform idle_state)) = ERROR"
    using shown_message_by_stage [OF idle_runs(1-3), of analysis_down_platform
        ?failed gym_plan "''Scanning 1 subreddits and 0 software categories...''"
        ?failed ?findings "Error (Some ''Signal Analysis failed: fetch failed'')"
        ?failed "[]" ?failed "[]" ?failed
        "[NetworkCall (GoogleGenAI ''k-123'') (analysis_request ''gym owners'' ?findings)]"
        "GoogleGenAI ''k-123''" ?failed]
      g3 s3 e3 t3 n analysis_catch [OF t3]
    by (simp add: idle_runs(4) analysis_context_def)

  have b4: "generateContent forbidden_platform ai req =
      Inl (Error (Some ''got status: 403 Forbidden''))" for ai req
    by (simp add: forbidden_platform_def rejecting_def)
  have r4: "error (fst (startResearch forbidden_platform idle_state)) = Some invalid_key_message"
    using shown_message_by_stage [OF idle_runs(1-3), of forbidden_platform
        ?failed gym_plan "[]" ?failed "[]" ?failed ?failed "[]" ?failed "[]" ?failed "[]"
        "GoogleGenAI ''k-123''" "Error (Some ''got status: 403 Forbidden'')"]
      getAI_sample(1) b4
    by (simp add: message_includes_def)

  show ?thesis
    using idle_runs(1,2) p0 t1 n r1 g2 s2 t2 r2 g3 s3 e3 t3 r3 getAI_sample(1) b4 r4
    by (simp add: idle_runs(4))
qed

text \<open>
  That every surfaced message carries the failing stage's context fails: a
  rejection with "got status: 403 Forbidden" in the planning stage is shown
  as the invalid-credential message, which names no stage.
\<close>

theorem invalid_key_message_has_no_stage_context:
  "generateContent forbidden_platform (GoogleGenAI ''k-123'') (planning_request ''gym owners'') =
     Inl (Error (Some ''got status: 403 Forbidden''))
   \<and> fst (generateResearchPlan forbidden_platform (market idle_state)) =
       Inl (Error (Some invalid_key_message))
   \<and> error (fst (startResearch forbidden_platform idle_state)) = Some invalid_key_message
   \<and> stage (fst (startResearch forbidden_platform idle_state)) = ERROR
   \<and> \<not> str_includes invalid_key_message planning_context
   \<and> \<not> str_includes invalid_key_message ''Planning''"
proof -
  have b: "generateContent forbidden_platform ai req = Inl (Error (Some ''got status: 403 Forbidden''))"
    for ai req
    by (simp add: forbidden_platform_def rejecting_def)
  have m: "market idle_state = ''gym owners''" by (simp add: idle_state_def)
  have g: "generateResearchPlan forbidden_platform ''gym owners'' =
      (Inl (Error (Some invalid_key_message)),
       [NetworkCall (GoogleGenAI ''k-123'') (planning_request ''gym owners''),
        ConsoleError ''Detailed Planning Error:''])"
    using plan_catch [OF plan_rejected [OF getAI_sample(1) b]]
    by (simp add: planning_catch_def message_includes_def)
  have pre: "js_trim (market idle_state) \<noteq> []" "session idle_state = Some (Session ''u1'')"
    "profile idle_state = None \<or> (\<exists>p. profile idle_state = Some p \<and> (is_pro p \<or> credits_used p < 3))"
    by (simp_all add: idle_state_def gym_owners_not_blank)
  have t: "startResearch_try forbidden_platform (Session ''u1'')
      (idle_state\<lparr>stage := PLANNING, error := None, plan := None, report := None,
                      progressText := ''Planning your research strategy...''\<rparr>) =
      (Some (Error (Some invalid_key_message)),
       idle_state\<lparr>stage := PLANNING, error := None, plan := None, report := None,
                      progressText := ''Planning your research strategy...''\<rparr>,
       [NetworkCall (GoogleGenAI ''k-123'') (planning_request ''gym owners''),
        ConsoleError ''Detailed Planning Error:''])"
    by (rule try_stage1_fails) (simp add: m g)
  have s: "fst (startResearch forbidden_platform idle_state) =
      idle_state\<lparr>stage := PLANNING, error := None, plan := None, report := None,
                      progressText := ''Planning your research strategy...'',
                 error := Some invalid_key_message, stage := ERROR\<rparr>"
    by (simp add: startResearch_runs [OF pre] t shown_error_Some invalid_key_nonempty)
  have n: "\<not> str_includes invalid_key_message planning_context"
    "\<not> str_includes invalid_key_message ''Planning''"
    by (simp_all add: invalid_key_message_def planning_context_def)
  show ?thesis
    by (simp add: b m g s n)
qed

text \<open>
  Every call of a stage function leaves at least one effect (the failed
  credential check is logged, a passed one is followed by the network call),
  so a trace without effects contains no stage call.
\<close>

lemma getAI_effect: "(\<exists>e evs. getAI w = (Inl e, evs) \<and> evs \<noteq> []) \<or> (\<exists>ai. getAI w = (Inr ai, []))"
  by (auto simp: getAI_def split: option.splits)

lemma plan_has_effect: "snd (generateResearchPlan w m) \<noteq> []"
  using getAI_effect [of w]
  by (auto simp: generateResearchPlan_def generateResearchPlan_try_def
      split: sum.splits option.splits prod.splits if_splits)

lemma research_has_effect: "snd (executeResearch w m p) \<noteq> []"
  using getAI_effect [of w]
  by (auto simp: executeResearch_def executeResearch_try_def
      split: sum.splits option.splits prod.splits if_splits)

lemma analysis_has_effect: "snd (analyzeSignals w m raw) \<noteq> []"
  using getAI_effect [of w]
  by (auto simp: analyzeSignals_def analyzeSignals_try_def
      split: sum.splits option.splits prod.splits if_splits)

text \<open>
  C8. For a signed-in caller whose loaded profile has \<^verbatim>\<open>is_pro\<close> false and
  \<^verbatim>\<open>credits_used\<close> at least 3, \<^verbatim>\<open>startResearch\<close> has no effect at all (no
  stage function is called, no stage is published) and leaves the run stage
  as it was; for a market that is not blank (the form's submit button is
  disabled otherwise) the state it leaves is the old one with the
  free-credit-limit error.
\<close>

theorem free_tier_gate_rejects_run:
  assumes "session s = Some sess" "profile s = Some p" "\<not> is_pro p" "credits_used p \<ge> 3"
  shows "snd (startResearch w s) = []
       \<and> stage (fst (startResearch w s)) = stage s
       \<and> (js_trim (market s) \<noteq> [] \<longrightarrow>
            fst (startResearch w s) = s\<lparr>error := Some free_limit_message\<rparr>)"
proof (cases "js_trim (market s) = []")
  case True
  then show ?thesis by (simp add: startResearch_blank)
next
  case False
  from startResearch_gated [OF False assms] show ?thesis by simp
qed

lemma exhausted_facts:
  "session exhausted_state = Some (Session ''u1'')" "profile exhausted_state = Some gym_profile"
  "\<not> is_pro gym_profile" "credits_used gym_profile \<ge> 3" "js_trim (market exhausted_state) \<noteq> []"
  "stage exhausted_state = IDLE"
  by (simp_all add: exhausted_state_def idle_state_def gym_profile_def gym_owners_not_blank)

theorem free_tier_gate_witness:
  "session exhausted_state = Some (Session ''u1'') \<and> profile exhausted_state = Some gym_profile
   \<and> \<not> is_pro gym_profile \<and> credits_used gym_profile \<ge> 3
   \<and> js_trim (market exhausted_state) \<noteq> []
   \<and> snd (startResearch gym_platform exhausted_state) = []
   \<and> stage (fst (startResearch gym_platform exhausted_state)) = IDLE
   \<and> fst (startResearch gym_platform exhausted_state) =
       exhausted_state\<lparr>error := Some free_limit_message\<rparr>"
  using free_tier_gate_rejects_run [OF exhausted_facts(1-4), of gym_platform]
  by (simp add: exhausted_facts)

text \<open>
  C10. \<^verbatim>\<open>getProfile\<close> never throws: for every user id its result is a
  value. When the storage call rejects, or resolves with any error object
  (the not-found code or another), the value is null, so the caller sees the
  same result for a missing row and for a storage failure.
\<close>

theorem getProfile_never_throws:
  "(\<exists>p. fst (getProfile w userId) = Inr p)
   \<and> (profiles_single w userId = QueryRejected e \<longrightarrow> fst (getProfile w userId) = Inr None)
   \<and> (profiles_single w userId = QueryResolved d (Some pe) \<longrightarrow>
        fst (getProfile w userId) = Inr None)"
proof (intro conjI impI)
  show "\<exists>p. fst (getProfile w userId) = Inr p"
  proof (cases "getProfile_try w userId")
    case (Pair res evs)
    then show ?thesis by (cases res) (simp_all add: getProfile_def)
  qed
next
  assume "profiles_single w userId = QueryRejected e"
  then have "getProfile_try w userId = (Inl (ThrownRejection e), [StorageQuery userId])"
    by (simp add: getProfile_try_def)
  then show "fst (getProfile w userId) = Inr None"
    by (simp add: getProfile_def)
next
  assume q: "profiles_single w userId = QueryResolved d (Some pe)"
  show "fst (getProfile w userId) = Inr None"
  proof (cases "pg_code pe = ''PGRST116''")
    case True
    with q have "getProfile_try w userId = (Inr None, [StorageQuery userId])"
      by (simp add: getProfile_try_def)
    then show ?thesis by (simp add: getProfile_def)
  next
    case False
    with q have "getProfile_try w userId =
        (Inl (ThrownPg pe), [StorageQuery userId, ConsoleError ''Error fetching profile:''])"
      by (simp add: getProfile_try_def)
    then show ?thesis by (simp add: getProfile_def)
  qed
qed

theorem getProfile_witness:
  "profiles_single unreachable_storage_platform ''u1'' = QueryRejected (Error (Some ''Failed to fetch''))
   \<and> fst (getProfile unreachable_storage_platform ''u1'') = Inr None
   \<and> profiles_single denied_storage_platform ''u1'' =
       QueryResolved None (Some \<lparr>pg_code = ''42501'', pg_message = ''permission denied''\<rparr>)
   \<and> fst (getProfile denied_storage_platform ''u1'') = Inr None"
proof -
  have 1: "profiles_single unreachable_storage_platform ''u1'' =
      QueryRejected (Error (Some ''Failed to fetch''))"
    by (simp add: unreachable_storage_platform_def)
  have 2: "profiles_single denied_storage_platform ''u1'' =
       QueryResolved None (Some \<lparr>pg_code = ''42501'', pg_message = ''permission denied''\<rparr>)"
    by (simp add: denied_storage_platform_def)
  show ?thesis
    using getProfile_never_throws [of unreachable_storage_platform "''u1''"
        "Error (Some ''Failed to fetch'')" None
        "\<lparr>pg_code = ''42501'', pg_message = ''permission denied''\<rparr>"]
      getProfile_never_throws [of denied_storage_platform "''u1''"
        "Error (Some ''Failed to fetch'')" None
        "\<lparr>pg_code = ''42501'', pg_message = ''permission denied''\<rparr>"]
    by (simp add: 1 2)
qed

lemma finish_run_completes:
  "\<exists>s' evs. finish_run w sess s v = (None, s', evs) \<and> stage s' = COMPLETED"
  by (simp add: finish_run_def Let_def)

lemma analyze_step_stage:
  "\<exists>thrown s' evs. analyze_step w sess s raw = (thrown, s', evs) \<and>
     (thrown = None \<longrightarrow> stage s' = COMPLETED)"
proof (cases "analyzeSignals w (market s) raw")
  case (Pair res evs)
  show ?thesis
  proof (cases res)
    case (Inl e)
    with Pair show ?thesis by (simp add: analyze_step_def Let_def)
  next
    case (Inr v)
    obtain s' evs' where "finish_run w sess
        (s\<lparr>stage := ANALYZING,
           progressText := ''Analyzing signals and extracting problem patterns...''\<rparr>) v =
        (None, s', evs')" "stage s' = COMPLETED"
      using finish_run_completes by blast
    with Pair Inr show ?thesis by (simp add: analyze_step_def Let_def)
  qed
qed

lemma research_step_stage:
  "\<exists>thrown s' evs. research_step w sess s pl = (thrown, s', evs) \<and>
     (thrown = None \<longrightarrow> stage s' = COMPLETED)"
proof (cases "scanning_text w pl")
  case (Inl e)
  then show ?thesis by (simp add: research_step_def Let_def)
next
  case (Inr shown)
  show ?thesis
  proof (cases "executeResearch w (market s) pl")
    case (Pair res evs)
    show ?thesis
    proof (cases res)
      case (Inl e)
      with Pair Inr show ?thesis by (simp add: research_step_def Let_def)
    next
      case (Inr rawData)
      obtain thrown s' evs' where
        "analyze_step w sess (s\<lparr>plan := Some pl, stage := RESEARCHING, progressText := shown\<rparr>) rawData =
           (thrown, s', evs')" "thrown = None \<longrightarrow> stage s' = COMPLETED"
        using analyze_step_stage by blast
      with Pair Inr \<open>scanning_text w pl = Inr shown\<close> show ?thesis
        by (simp add: research_step_def Let_def)
    qed
  qed
qed

lemma startResearch_try_shape:
  "\<exists>thrown s' evs. startResearch_try w sess s =
       (thrown, s', snd (generateResearchPlan w (market s)) @ evs) \<and>
     (thrown = None \<longrightarrow> stage s' = COMPLETED)"
proof (cases "generateResearchPlan w (market s)")
  case (Pair res evs)
  show ?thesis
  proof (cases res)
    case (Inl e)
    with Pair show ?thesis by (simp add: startResearch_try_def)
  next
    case (Inr pl)
    obtain thrown s' evs' where
      "research_step w sess s pl = (thrown, s', evs')" "thrown = None \<longrightarrow> stage s' = COMPLETED"
      using research_step_stage by blast
    with Pair Inr show ?thesis by (simp add: startResearch_try_def)
  qed
qed

lemma startResearch_run_shape:
  assumes "js_trim (market s) \<noteq> []" "session s = Some sess"
          "profile s = None \<or> (\<exists>p. profile s = Some p \<and> (is_pro p \<or> credits_used p < 3))"
  shows "(\<exists>evs. snd (startResearch w s) =
              [SetStage PLANNING] @ snd (generateResearchPlan w (market s)) @ evs)
       \<and> (stage (fst (startResearch w s)) = COMPLETED \<or> stage (fst (startResearch w s)) = ERROR)"
proof -
  let ?s = "s\<lparr>stage := PLANNING, error := None, plan := None, report := None,
              progressText := ''Planning your research strategy...''\<rparr>"
  obtain thrown s' evs where t: "startResearch_try w sess ?s =
       (thrown, s', snd (generateResearchPlan w (market ?s)) @ evs)"
     and c: "thrown = None \<longrightarrow> stage s' = COMPLETED"
    using startResearch_try_shape by blast
  show ?thesis
  proof (cases thrown)
    case None
    with t c show ?thesis by (simp add: startResearch_runs [OF assms])
  next
    case (Some err)
    with t show ?thesis by (simp add: startResearch_runs [OF assms])
  qed
qed

text \<open>
  C9. With a session, a null profile and a market that is not blank (the
  form cannot be submitted with a blank one), \<^verbatim>\<open>startResearch\<close> applies no
  credit check: whatever the platform (and so
  whatever credits and plan the store holds for the user), it publishes the
  planning stage and calls \<^verbatim>\<open>generateResearchPlan\<close>, whose effects follow,
  and the run ends completed or failed.
\<close>

theorem null_profile_skips_credit_check:
  assumes "session s = Some sess" "profile s = None" "js_trim (market s) \<noteq> []"
  shows "(\<exists>evs. snd (startResearch w s) =
              [SetStage PLANNING] @ snd (generateResearchPlan w (market s)) @ evs)
       \<and> snd (generateResearchPlan w (market s)) \<noteq> []
       \<and> (stage (fst (startResearch w s)) = COMPLETED \<or> stage (fst (startResearch w s)) = ERROR)"
  using startResearch_run_shape [OF assms(3) assms(1), of w] assms(2) plan_has_effect [of w "market s"]
  by simp

theorem null_profile_witness:
  "session idle_state = Some (Session ''u1'') \<and> profile idle_state = None
   \<and> js_trim (market idle_state) \<noteq> []
   \<and> profiles_single gym_platform ''u1'' = QueryResolved (Some gym_profile) None
   \<and> \<not> is_pro gym_profile \<and> credits_used gym_profile \<ge> 3
   \<and> (\<exists>evs. snd (startResearch gym_platform idle_state) =
         [SetStage PLANNING,
          NetworkCall (GoogleGenAI ''k-123'') (planning_request ''gym owners'')] @ evs)"
proof -
  have f: "session idle_state = Some (Session ''u1'')" "profile idle_state = None"
    "js_trim (market idle_state) \<noteq> []"
    by (simp_all add: idle_state_def gym_owners_not_blank)
  have m: "market idle_state = ''gym owners''" by (simp add: idle_state_def)
  have q: "profiles_single gym_platform ''u1'' = QueryResolved (Some gym_profile) None"
    by (simp add: gym_platform_def platform_with_def)
  have g: "snd (generateResearchPlan gym_platform ''gym owners'') =
      [NetworkCall (GoogleGenAI ''k-123'') (planning_request ''gym owners'')]"
    by (simp add: generateResearchPlan_def generateResearchPlan_try_def gym_platform_def getAI_k123
        answering_def falsy_def gym_plan_text_nonempty gym_parse_def)
  show ?thesis
    using null_profile_skips_credit_check [OF f, of gym_platform]
    by (simp add: f q m g exhausted_facts gym_owners_not_blank)
qed

end
